theory Spec2Isabelle
  imports Main "HOL-Library.AList" "HOL-Library.Char_ord" "HOL-Library.List_Lexorder"
begin

section \<open>Python strings\<close>

text \<open>
  The module \<^verbatim>\<open>virttest/libvirt_cgroup.py\<close> works on Python \<^verbatim>\<open>str\<close> values read from
  cgroup control files, from \<^verbatim>\<open>/proc\<close> and from the output of \<^verbatim>\<open>virsh\<close>. These texts are
  ASCII, and a \<^typ>\<open>string\<close> here is a list of ASCII characters; the character classes
  below are Python's classes restricted to ASCII.
\<close>

definition isspace :: "char \<Rightarrow> bool" where
  \<comment> \<open>\<^verbatim>\<open>str.isspace\<close> on one ASCII character: TAB, LF, VT, FF, CR, FS, GS, RS, US, space.\<close>
  "isspace c = (c \<in> set [CHR 0x09, CHR 0x0A, CHR 0x0B, CHR 0x0C, CHR 0x0D,
                           CHR 0x1C, CHR 0x1D, CHR 0x1E, CHR 0x1F, CHR 0x20])"

definition is_digit :: "char \<Rightarrow> bool" where
  "is_digit c = (c \<in> set ''0123456789'')"

definition digit_val :: "char \<Rightarrow> nat" where
  "digit_val c = of_char c - 48"

definition digit_chr :: "nat \<Rightarrow> char" where
  \<comment> \<open>the character of a digit \<open>d < 10\<close>\<close>
  "digit_chr d = ''0123456789'' ! d"

definition py_strip :: "string \<Rightarrow> string" where
  \<comment> \<open>\<^verbatim>\<open>s.strip()\<close>\<close>
  "py_strip s = rev (dropWhile isspace (rev (dropWhile isspace s)))"

definition py_strip_chars :: "string \<Rightarrow> string \<Rightarrow> string" where
  \<comment> \<open>\<^verbatim>\<open>s.strip(chars)\<close>\<close>
  "py_strip_chars chars s =
     rev (dropWhile (\<lambda>c. c \<in> set chars) (rev (dropWhile (\<lambda>c. c \<in> set chars) s)))"

definition lower_char :: "char \<Rightarrow> char" where
  "lower_char c =
     (if (65::nat) \<le> of_char c \<and> of_char c \<le> (90::nat) then char_of (of_char c + (32::nat)) else c)"

definition py_lower :: "string \<Rightarrow> string" where
  \<comment> \<open>\<^verbatim>\<open>s.lower()\<close>\<close>
  "py_lower s = map lower_char s"

primrec startswith :: "string \<Rightarrow> string \<Rightarrow> bool" where
  \<comment> \<open>\<^verbatim>\<open>s.startswith(p)\<close>, the prefix first\<close>
  "startswith [] s = True"
| "startswith (p # ps) s = (case s of [] \<Rightarrow> False | c # cs \<Rightarrow> p = c \<and> startswith ps cs)"

fun py_in :: "string \<Rightarrow> string \<Rightarrow> bool" where
  \<comment> \<open>\<^verbatim>\<open>sub in s\<close>\<close>
  "py_in sub [] = (sub = [])"
| "py_in sub (c # cs) = (startswith sub (c # cs) \<or> py_in sub cs)"

fun py_split :: "string \<Rightarrow> string \<Rightarrow> string list" where
  \<comment> \<open>\<^verbatim>\<open>s.split(sep)\<close>, the separator first; every call of the module passes a non-empty
      literal separator\<close>
  "py_split sep [] = [[]]"
| "py_split sep (c # cs) =
     (if sep \<noteq> [] \<and> startswith sep (c # cs)
      then [] # py_split sep (drop (length sep - 1) cs)
      else (case py_split sep cs of [] \<Rightarrow> [[c]] | p # ps \<Rightarrow> (c # p) # ps))"

fun py_replace :: "string \<Rightarrow> string \<Rightarrow> string \<Rightarrow> string" where
  \<comment> \<open>\<^verbatim>\<open>s.replace(old, new)\<close> for a non-empty \<^verbatim>\<open>old\<close>, arguments in the order old, new, s\<close>
  "py_replace old new [] = []"
| "py_replace old new (c # cs) =
     (if old \<noteq> [] \<and> startswith old (c # cs)
      then new @ py_replace old new (drop (length old - 1) cs)
      else c # py_replace old new cs)"

fun split_ws_aux :: "string \<Rightarrow> string \<Rightarrow> string list" where
  "split_ws_aux acc [] = (if acc = [] then [] else [rev acc])"
| "split_ws_aux acc (c # cs) =
     (if isspace c then (if acc = [] then split_ws_aux [] cs else rev acc # split_ws_aux [] cs)
      else split_ws_aux (c # acc) cs)"

definition py_split_ws :: "string \<Rightarrow> string list" where
  \<comment> \<open>\<^verbatim>\<open>s.split()\<close>: the maximal runs of non-whitespace characters\<close>
  "py_split_ws s = split_ws_aux [] s"

definition is_linebreak :: "char \<Rightarrow> bool" where
  \<comment> \<open>the ASCII line boundaries of \<^verbatim>\<open>str.splitlines\<close>: LF, VT, FF, CR, FS, GS, RS\<close>
  "is_linebreak c = (c \<in> set [CHR 0x0A, CHR 0x0B, CHR 0x0C, CHR 0x0D, CHR 0x1C, CHR 0x1D, CHR 0x1E])"

fun splitlines_aux :: "string \<Rightarrow> string \<Rightarrow> string list" where
  "splitlines_aux acc [] = (if acc = [] then [] else [rev acc])"
| "splitlines_aux acc [c] = (if is_linebreak c then [rev acc] else [rev (c # acc)])"
| "splitlines_aux acc (c # d # cs) =
     (if c = CHR 0x0D \<and> d = CHR 0x0A then rev acc # splitlines_aux [] cs
      else if is_linebreak c then rev acc # splitlines_aux [] (d # cs)
      else splitlines_aux (c # acc) (d # cs))"

definition py_splitlines :: "string \<Rightarrow> string list" where
  \<comment> \<open>\<^verbatim>\<open>s.splitlines()\<close>: CR LF is one boundary, no empty last line\<close>
  "py_splitlines s = splitlines_aux [] s"

fun universal_newlines :: "string \<Rightarrow> string" where
  \<comment> \<open>a file opened with \<^verbatim>\<open>open(path, "r")\<close> is read with CR LF and CR translated to LF\<close>
  "universal_newlines [] = []"
| "universal_newlines [c] = [if c = CHR 0x0D then CHR 0x0A else c]"
| "universal_newlines (c # d # cs) =
     (if c = CHR 0x0D \<and> d = CHR 0x0A then CHR 0x0A # universal_newlines cs
      else if c = CHR 0x0D then CHR 0x0A # universal_newlines (d # cs)
      else c # universal_newlines (d # cs))"

fun readlines_aux :: "string \<Rightarrow> string \<Rightarrow> string list" where
  "readlines_aux acc [] = (if acc = [] then [] else [rev acc])"
| "readlines_aux acc (c # cs) =
     (if c = CHR 0x0A then rev (c # acc) # readlines_aux [] cs else readlines_aux (c # acc) cs)"

definition readlines :: "string \<Rightarrow> string list" where
  \<comment> \<open>\<^verbatim>\<open>f.readlines()\<close> on the text of a file: every line keeps its LF\<close>
  "readlines s = readlines_aux [] s"

definition readline :: "string \<Rightarrow> string" where
  \<comment> \<open>\<^verbatim>\<open>f.readline()\<close> on a file just opened\<close>
  "readline s = (case readlines s of [] \<Rightarrow> [] | l # _ \<Rightarrow> l)"

definition isdigit :: "string \<Rightarrow> bool" where
  \<comment> \<open>\<^verbatim>\<open>s.isdigit()\<close>: at least one character, all of them digits\<close>
  "isdigit s = (s \<noteq> [] \<and> list_all is_digit s)"

definition decimal :: "string \<Rightarrow> nat" where
  \<comment> \<open>the number a string of digits denotes\<close>
  "decimal s = foldl (\<lambda>a c. 10 * a + digit_val c) 0 s"

fun int_body_ok :: "string \<Rightarrow> bool" where
  \<comment> \<open>the digits of an integer literal accepted by \<^verbatim>\<open>int\<close>: single underscores between digits\<close>
  "int_body_ok [] = False"
| "int_body_ok [c] = is_digit c"
| "int_body_ok (c # d # cs) =
     (is_digit c \<and> (if d = CHR ''_'' then int_body_ok cs else int_body_ok (d # cs)))"

definition is_c_space :: "char \<Rightarrow> bool" where
  \<comment> \<open>the whitespace \<^verbatim>\<open>int\<close> skips around an ASCII literal: TAB, LF, VT, FF, CR and space
      (the separators FS, GS, RS and US are whitespace for \<^verbatim>\<open>str.strip\<close> only)\<close>
  "is_c_space c = (c \<in> set [CHR 0x09, CHR 0x0A, CHR 0x0B, CHR 0x0C, CHR 0x0D, CHR 0x20])"

definition py_int :: "string \<Rightarrow> int option" where
  \<comment> \<open>\<^verbatim>\<open>int(s)\<close>: surrounding whitespace, an optional sign, digits; \<open>None\<close> is ValueError\<close>
  "py_int s =
     (let t = rev (dropWhile is_c_space (rev (dropWhile is_c_space s)));
          neg = (t \<noteq> [] \<and> hd t = CHR ''-'');
          body = (if t \<noteq> [] \<and> (hd t = CHR ''-'' \<or> hd t = CHR ''+'') then tl t else t)
      in if int_body_ok body
         then Some ((if neg then - 1 else 1) * int (decimal (filter (\<lambda>c. c \<noteq> CHR ''_'') body)))
         else None)"

fun str_nat :: "nat \<Rightarrow> string" where
  "str_nat n = (if n < 10 then [digit_chr n] else str_nat (n div 10) @ [digit_chr (n mod 10)])"

declare str_nat.simps [simp del]

definition py_str :: "int \<Rightarrow> string" where
  \<comment> \<open>\<^verbatim>\<open>str(i)\<close> for an integer\<close>
  "py_str i = (if i < 0 then CHR ''-'' # str_nat (nat (- i)) else str_nat (nat i))"

definition path_join :: "string \<Rightarrow> string \<Rightarrow> string" where
  \<comment> \<open>\<^verbatim>\<open>os.path.join(a, b)\<close> on POSIX\<close>
  "path_join a b =
     (if startswith ''/'' b then b
      else if a = [] \<or> last a = CHR ''/'' then a @ b
      else a @ ''/'' @ b)"

section \<open>Exceptions, logging and the module's global state\<close>

datatype error = IndexError | ValueError | KeyError | TypeError | AttributeError | OSError

datatype log_level = DEBUG | ERROR

record state =
  CGROUP_V1_BLKIO_FILE_MAPPING :: "(string \<times> string) list"
  LOG :: "(log_level \<times> string) list"

text \<open>
  A method of \<^verbatim>\<open>CgroupTest\<close> is a function from the state before the call to the state
  after it and either the exception raised or the value returned. The state is what a call
  can change: the module-level table \<^verbatim>\<open>CGROUP_V1_BLKIO_FILE_MAPPING\<close> and the records
  sent to the logger.
\<close>

type_synonym 'a py = "state \<Rightarrow> state \<times> (error + 'a)"

definition returnM :: "'a \<Rightarrow> 'a py" where
  "returnM x s = (s, Inr x)"

definition raiseM :: "error \<Rightarrow> 'a py" where
  "raiseM e s = (s, Inl e)"

definition bindM :: "'a py \<Rightarrow> ('a \<Rightarrow> 'b py) \<Rightarrow> 'b py" where
  "bindM m f s = (case m s of (s', Inl e) \<Rightarrow> (s', Inl e) | (s', Inr x) \<Rightarrow> f x s')"

definition log_msg :: "log_level \<Rightarrow> string \<Rightarrow> unit py" where
  "log_msg lvl msg s = (s\<lparr>LOG := LOG s @ [(lvl, msg)]\<rparr>, Inr ())"

primrec foldM :: "('a \<Rightarrow> 'b \<Rightarrow> 'b py) \<Rightarrow> 'a list \<Rightarrow> 'b \<Rightarrow> 'b py" where
  \<comment> \<open>a \<^verbatim>\<open>for\<close> loop over a list, the loop's variables as the accumulator\<close>
  "foldM f [] a = returnM a"
| "foldM f (x # xs) a = bindM (f x a) (foldM f xs)"

section \<open>The schema tables\<close>

definition VIRSH_BLKIOTUNE_OUTPUT_MAPPING :: "(string \<times> string) list" where
  "VIRSH_BLKIOTUNE_OUTPUT_MAPPING =
     [(''weight'', ''weight''),
      (''device_read_iops_sec'', ''riops''),
      (''device_write_iops_sec'', ''wiops''),
      (''device_read_bytes_sec'', ''rbps''),
      (''device_write_bytes_sec'', ''wbps'')]"

definition CGROUP_V1_BLKIO_FILE_MAPPING_init :: "(string \<times> string) list" where
  \<comment> \<open>the table as the module defines it, before any call\<close>
  "CGROUP_V1_BLKIO_FILE_MAPPING_init =
     [(''weight'', ''blkio.bfq.weight''),
      (''wiops'', ''blkio.throttle.write_iops_device''),
      (''riops'', ''blkio.throttle.read_iops_device''),
      (''rbps'', ''blkio.throttle.read_bps_device''),
      (''wbps'', ''blkio.throttle.write_bps_device'')]"

definition CGROUP_V2_BLKIO_FILE_MAPPING :: "(string \<times> string) list" where
  "CGROUP_V2_BLKIO_FILE_MAPPING =
     [(''weight'', ''io.bfq.weight''),
      (''wiops'', ''io.max''),
      (''riops'', ''io.max''),
      (''rbps'', ''io.max''),
      (''wbps'', ''io.max'')]"

definition CGROUP_V1_MEM_FILE_MAPPING :: "(string \<times> string) list" where
  "CGROUP_V1_MEM_FILE_MAPPING =
     [(''hard_limit'', ''memory.limit_in_bytes''),
      (''soft_limit'', ''memory.soft_limit_in_bytes''),
      (''swap_hard_limit'', ''memory.memsw.limit_in_bytes'')]"

definition CGROUP_V2_MEM_FILE_MAPPING :: "(string \<times> string) list" where
  "CGROUP_V2_MEM_FILE_MAPPING =
     [(''hard_limit'', ''memory.max''),
      (''soft_limit'', ''memory.high''),
      (''swap_hard_limit'', ''memory.swap.max'')]"

definition CGROUP_V1_SCHEDINFO_FILE_MAPPING :: "(string \<times> string) list" where
  "CGROUP_V1_SCHEDINFO_FILE_MAPPING =
     [(''cpu_shares'', ''cpu.shares''),
      (''vcpu_period'', ''<vcpuX>/cpu.cfs_period_us''),
      (''vcpu_quota'', ''<vcpuX>/cpu.cfs_quota_us''),
      (''emulator_period'', ''emulator/cpu.cfs_period_us''),
      (''emulator_quota'', ''emulator/cpu.cfs_quota_us''),
      (''global_period'', ''cpu.cfs_period_us''),
      (''global_quota'', ''cpu.cfs_quota_us''),
      (''iothread_period'', ''<iothreadX>/cpu.cfs_period_us''),
      (''iothread_quota'', ''<iothreadX>/cpu.cfs_quota_us'')]"

definition CGROUP_V2_SCHEDINFO_FILE_MAPPING :: "(string \<times> string) list" where
  "CGROUP_V2_SCHEDINFO_FILE_MAPPING =
     [(''cpu_shares'', ''cpu.weight''),
      (''vcpu_period'', ''<vcpuX>/cpu.max''),
      (''vcpu_quota'', ''<vcpuX>/cpu.max''),
      (''emulator_period'', ''emulator/cpu.max''),
      (''emulator_quota'', ''emulator/cpu.max''),
      (''global_period'', ''cpu.max''),
      (''global_quota'', ''cpu.max''),
      (''iothread_period'', ''<iothreadX>/cpu.max''),
      (''iothread_quota'', ''<iothreadX>/cpu.max'')]"

section \<open>The host\<close>

text \<open>
  What the module reads from outside itself, as one snapshot: the files it opens, the
  directories it lists, the paths that exist with the device number \<^verbatim>\<open>os.stat\<close> reports
  for them, and the answers of the collaborators it calls (\<^verbatim>\<open>process.run\<close>,
  \<^verbatim>\<open>utils_cgroup.resolve_task_cgroup_path\<close>, \<^verbatim>\<open>utils_disk.get_first_disk\<close>).
\<close>

record host =
  vm_pid :: string
    \<comment> \<open>the constructor's argument\<close>
  cgroup2_in_mounts :: bool
    \<comment> \<open>\<^verbatim>\<open>cat /proc/mounts | grep cgroup2\<close> exits with status 0\<close>
  files :: "string \<Rightarrow> string option"
    \<comment> \<open>the content of every file that can be opened for reading\<close>
  listdir :: "string \<Rightarrow> string list option"
    \<comment> \<open>\<^verbatim>\<open>os.listdir\<close>\<close>
  stat_rdev :: "string \<Rightarrow> (nat \<times> nat) option"
    \<comment> \<open>for a path that exists, \<^verbatim>\<open>os.major\<close> and \<^verbatim>\<open>os.minor\<close> of its \<^verbatim>\<open>st_rdev\<close>\<close>
  resolve_task_cgroup_path :: "int \<Rightarrow> string option \<Rightarrow> error + string"
    \<comment> \<open>\<^verbatim>\<open>utils_cgroup.resolve_task_cgroup_path(pid, controller)\<close>\<close>
  get_first_disk :: string
    \<comment> \<open>\<^verbatim>\<open>utils_disk.get_first_disk()\<close>\<close>
  getconf_PAGE_SIZE :: string
    \<comment> \<open>the standard output of \<^verbatim>\<open>getconf PAGE_SIZE\<close>\<close>

definition path_exists :: "host \<Rightarrow> string \<Rightarrow> bool" where
  \<comment> \<open>\<^verbatim>\<open>os.path.exists\<close>\<close>
  "path_exists h p = (stat_rdev h p \<noteq> None)"

definition open_read :: "host \<Rightarrow> string \<Rightarrow> string py" where
  \<comment> \<open>\<^verbatim>\<open>open(path, "r")\<close> and the text of the file; a file that cannot be opened raises\<close>
  "open_read h p = (case files h p of None \<Rightarrow> raiseM OSError | Some raw \<Rightarrow> returnM (universal_newlines raw))"

definition liftE :: "error + 'a \<Rightarrow> 'a py" where
  \<comment> \<open>a computation that neither logs nor touches the global table\<close>
  "liftE r s = (s, r)"

primrec foldE :: "('a \<Rightarrow> 'b \<Rightarrow> error + 'b) \<Rightarrow> 'a list \<Rightarrow> 'b \<Rightarrow> error + 'b" where
  \<comment> \<open>a \<^verbatim>\<open>for\<close> loop whose body only computes; the first exception ends it\<close>
  "foldE f [] a = Inr a"
| "foldE f (x # xs) a = (case f x a of Inl e \<Rightarrow> Inl e | Inr a' \<Rightarrow> foldE f xs a')"

definition quote :: char where
  "quote = CHR 0x27"

section \<open>Canonical attribute maps\<close>

text \<open>
  A Python \<^verbatim>\<open>dict\<close> is an association list in insertion order with distinct keys;
  \<^const>\<open>AList.update\<close> is \<^verbatim>\<open>d[k] = v\<close> (the value replaced in place, or the pair appended)
  and \<^const>\<open>map_of\<close> is the lookup. A value of a standardized dict is a string, a per-device
  dict of strings, or \<^verbatim>\<open>None\<close>. The readers' keys are strings; the keys of the dict built from a
  \<^verbatim>\<open>virsh\<close> report are strings or \<^verbatim>\<open>None\<close>.
\<close>

datatype pyval = Str string | Dict "(string \<times> string) list" | PyNone

type_synonym 'k pydict = "('k \<times> pyval) list"

definition dev_init_dict :: "(string \<times> string) list" where
  "dev_init_dict = [(''rbps'', ''max''), (''wbps'', ''max''), (''riops'', ''max''), (''wiops'', ''max'')]"

definition set_dev_item :: "'k \<Rightarrow> string \<Rightarrow> string \<Rightarrow> 'k pydict \<Rightarrow> error + 'k pydict" where
  \<comment> \<open>\<^verbatim>\<open>info[dev_num][key] = value\<close>\<close>
  "set_dev_item dev_num key v info =
     (case map_of info dev_num of
        None \<Rightarrow> Inl KeyError
      | Some (Dict d) \<Rightarrow> Inr (AList.update dev_num (Dict (AList.update key v d)) info)
      | Some _ \<Rightarrow> Inl TypeError)"

definition split_first :: "string \<Rightarrow> string \<Rightarrow> string" where
  \<comment> \<open>\<^verbatim>\<open>s.split(sep)[0]\<close>\<close>
  "split_first sep s = (case py_split sep s of [] \<Rightarrow> [] | p # _ \<Rightarrow> p)"

section \<open>Path resolver\<close>

definition is_cgroup_v2_enabled :: "host \<Rightarrow> bool" where
  "is_cgroup_v2_enabled h = cgroup2_in_mounts h"

definition endswith :: "string \<Rightarrow> string \<Rightarrow> bool" where
  "endswith suf s = startswith (rev suf) (rev s)"

text \<open>
  \<^verbatim>\<open>re.findall(r"\s(\S*cgroup)\s", text)\<close>. A match starts at a whitespace character; the
  group and the literal \<^verbatim>\<open>cgroup\<close> hold no whitespace and a whitespace character must
  follow, so the group is the whole run of non-whitespace characters after the first
  whitespace, that run ends in \<^verbatim>\<open>cgroup\<close> and the text goes on after it. The search resumes
  behind the closing whitespace character.
\<close>

function findall_cg_mount_point :: "string \<Rightarrow> string list" where
  "findall_cg_mount_point [] = []"
| "findall_cg_mount_point (c # cs) =
     (if isspace c \<and> dropWhile (\<lambda>x. \<not> isspace x) cs \<noteq> []
         \<and> endswith ''cgroup'' (takeWhile (\<lambda>x. \<not> isspace x) cs)
      then takeWhile (\<lambda>x. \<not> isspace x) cs
             # findall_cg_mount_point (tl (dropWhile (\<lambda>x. \<not> isspace x) cs))
      else findall_cg_mount_point cs)"
  by pat_completeness auto
termination
proof (relation "measure length")
  fix c :: char and cs :: string
  have "length (tl (dropWhile (\<lambda>x. \<not> isspace x) cs)) \<le> length cs"
    using length_dropWhile_le [of "\<lambda>x. \<not> isspace x" cs] by simp
  then show "(tl (dropWhile (\<lambda>x. \<not> isspace x) cs), c # cs) \<in> measure length"
    by simp
qed simp_all

text \<open>
  \<^verbatim>\<open>re.findall(r"\S*::(\S*)", text)\<close>. A match lies inside one run of non-whitespace
  characters and takes the run to its end; the first \<^verbatim>\<open>\S*\<close> is greedy, so the group is
  what follows the last \<^verbatim>\<open>::\<close> of the run. A run without \<^verbatim>\<open>::\<close> gives no match.
\<close>

definition after_last_colons :: "string \<Rightarrow> string" where
  "after_last_colons r = rev (split_first ''::'' (rev r))"

definition findall_cg_vm_scope :: "string \<Rightarrow> string list" where
  "findall_cg_vm_scope text = map after_last_colons (filter (py_in ''::'') (py_split_ws text))"

definition cgroup2_scope_path :: "string \<Rightarrow> string \<Rightarrow> string" where
  \<comment> \<open>lines 111 to 113: the joined path, and \<^verbatim>\<open>/..\<close> behind it\<close>
  "cgroup2_scope_path cg_mount_point cg_vm_scope =
     (let cgroup_path = path_join cg_mount_point (py_strip_chars ''/'' cg_vm_scope)
      in if py_in ''emulator'' cgroup_path then cgroup_path @ ''/..'' else cgroup_path)"

definition get_cgroup_path :: "host \<Rightarrow> string option \<Rightarrow> string option py" where
  "get_cgroup_path h controller =
     bindM
       (if is_cgroup_v2_enabled h
        then bindM (open_read h ''/proc/mounts'') (\<lambda>mnts.
             bindM (open_read h (''/proc/'' @ vm_pid h @ ''/cgroup'')) (\<lambda>vm_cg_file.
               case findall_cg_mount_point mnts of
                 [] \<Rightarrow> raiseM IndexError
               | mp # _ \<Rightarrow>
                   (case findall_cg_vm_scope vm_cg_file of
                      [] \<Rightarrow> raiseM IndexError
                    | sc # _ \<Rightarrow> returnM (cgroup2_scope_path mp sc))))
        else (case py_int (vm_pid h) of
                None \<Rightarrow> raiseM ValueError
              | Some pid \<Rightarrow> liftE (resolve_task_cgroup_path h pid controller)))
       (\<lambda>cgroup_path.
          if \<not> path_exists h cgroup_path
          then bindM (log_msg ERROR (''cgroup path '' @ [quote] @ cgroup_path @ [quote] @ '' doesn'' @ [quote] @ ''t exist''))
                 (\<lambda>_. returnM None)
          else returnM (Some cgroup_path))"

section \<open>Subdirectory discovery\<close>

definition get_cpu_subdirs :: "host \<Rightarrow> string option \<Rightarrow> string \<Rightarrow> string list option py" where
  \<comment> \<open>\<^verbatim>\<open>os.listdir(None)\<close> lists the current directory\<close>
  "get_cpu_subdirs h controller_path dir_keyword =
     (case listdir h (case controller_path of None \<Rightarrow> ''.'' | Some p \<Rightarrow> p) of
        None \<Rightarrow> raiseM OSError
      | Some filenames \<Rightarrow>
          (let dir_names = filter (py_in dir_keyword) filenames
           in if dir_names = [] \<and> py_in ''iothread'' dir_keyword
              then bindM (log_msg DEBUG (''No sub dirs found with keyword: '' @ [quote] @ dir_keyword @ [quote]
                            @ ''. Pls check if you'' @ [quote] @ ''ve executed virsh cmd ''
                            @ [quote] @ ''iothreadadd'' @ [quote] @ ''.''))
                     (\<lambda>_. returnM None)
              else returnM (Some (sort dir_names))))"

section \<open>Scheduler-type detector\<close>

definition is_bfq :: "host \<Rightarrow> bool py" where
  "is_bfq h =
     bindM (open_read h (''/sys/block/'' @ get_first_disk h @ ''/queue/scheduler''))
       (\<lambda>iosche. returnM (py_in ''bfq'' (readline iosche)))"

section \<open>Kernel-state reader, cgroup v1\<close>

definition get_cg_file_path :: "string \<Rightarrow> string option \<Rightarrow> string \<Rightarrow> error + string" where
  \<comment> \<open>the local function \<^verbatim>\<open>__get_cg_file_path\<close>; a \<^verbatim>\<open>cg_path\<close> of \<^verbatim>\<open>None\<close> is a TypeError
      at \<^verbatim>\<open>"libvirt" in cg_path\<close> or in \<^verbatim>\<open>os.path.join\<close>\<close>
  "get_cg_file_path cg_key cg_path cg_file_name =
     (case cg_path of
        None \<Rightarrow> Inl TypeError
      | Some p \<Rightarrow>
          if cg_key \<in> set [''weight'', ''cpu_shares''] \<and> py_in ''libvirt'' p
          then Inr (path_join (split_first ''libvirt'' p) cg_file_name)
          else Inr (path_join p cg_file_name))"

definition cg1_dev_line ::
  "string \<Rightarrow> string \<Rightarrow> string pydict \<times> string list \<Rightarrow> error + string pydict \<times> string list" where
  \<comment> \<open>lines 190 to 196, one line of a per-device file; the accumulator is
      \<^verbatim>\<open>standardized_cgroup_info\<close> and \<^verbatim>\<open>dev_list\<close>\<close>
  "cg1_dev_line cg_key line acc =
     (case py_split_ws (py_strip line) of
        [] \<Rightarrow> Inl IndexError
      | [dev_num] \<Rightarrow> Inl IndexError
      | dev_num # dev_cg_value # _ \<Rightarrow>
          (let info = (if dev_num \<notin> set (snd acc)
                       then AList.update dev_num (Dict dev_init_dict) (fst acc)
                       else fst acc)
           in case set_dev_item dev_num cg_key dev_cg_value info of
                Inl e \<Rightarrow> Inl e
              | Inr info' \<Rightarrow> Inr (info', snd acc @ [dev_num])))"

definition cg1_blkio_item ::
  "host \<Rightarrow> string option \<Rightarrow> string \<times> string \<Rightarrow> string pydict \<times> string list
     \<Rightarrow> (string pydict \<times> string list) py" where
  \<comment> \<open>lines 184 to 196, the body of the loop over the table. No key is in both lists, so
      the file is read once, by \<^verbatim>\<open>read\<close> or by \<^verbatim>\<open>readlines\<close>.\<close>
  "cg1_blkio_item h cgroup_path item acc =
     (case item of (cg_key, cg_file_name) \<Rightarrow>
        bindM (liftE (get_cg_file_path cg_key cgroup_path cg_file_name)) (\<lambda>cg_file_path.
        bindM (open_read h cg_file_path) (\<lambda>cg_file.
          let acc1 = (if cg_key \<in> set [''weight'']
                      then (AList.update cg_key (Str (py_strip cg_file)) (fst acc), snd acc)
                      else acc)
          in if cg_key \<in> set [''rbps'', ''wbps'', ''riops'', ''wiops'', ''weight_device'']
             then liftE (foldE (cg1_dev_line cg_key) (readlines cg_file) acc1)
             else returnM acc1)))"

definition patch_blkio_mapping :: "unit py" where
  \<comment> \<open>lines 181 and 182: the module-level table is changed in place\<close>
  "patch_blkio_mapping s =
     (s\<lparr>CGROUP_V1_BLKIO_FILE_MAPPING :=
          AList.update ''weight_device'' ''blkio.weight_device''
            (AList.update ''weight'' ''blkio.weight'' (CGROUP_V1_BLKIO_FILE_MAPPING s))\<rparr>, Inr ())"

definition read_blkio_mapping :: "(string \<times> string) list py" where
  "read_blkio_mapping s = (s, Inr (CGROUP_V1_BLKIO_FILE_MAPPING s))"

definition cg1_blkiotune :: "host \<Rightarrow> string pydict py" where
  "cg1_blkiotune h =
     bindM (get_cgroup_path h (Some ''blkio'')) (\<lambda>cgroup_path.
     bindM (is_bfq h) (\<lambda>bfq.
     bindM (if \<not> bfq then patch_blkio_mapping else returnM ()) (\<lambda>_.
     bindM read_blkio_mapping (\<lambda>mapping.
     bindM (foldM (cg1_blkio_item h cgroup_path) mapping ([], [])) (\<lambda>acc.
       returnM (fst acc))))))"

definition cg1_mem_item :: "host \<Rightarrow> string option \<Rightarrow> string \<Rightarrow> string \<times> string \<Rightarrow> string pydict \<Rightarrow> string pydict py" where
  \<comment> \<open>lines 210 to 214\<close>
  "cg1_mem_item h cgroup_path max_mem_value item info =
     (case item of (cg_key, cg_file_name) \<Rightarrow>
        (case cgroup_path of
           None \<Rightarrow> raiseM TypeError
         | Some p \<Rightarrow>
             bindM (open_read h (path_join p cg_file_name)) (\<lambda>cg_file.
               let cg_file_value = py_strip cg_file
               in returnM (AList.update cg_key
                    (Str (if cg_file_value = max_mem_value then ''max'' else cg_file_value)) info))))"

definition cg1_memtune :: "host \<Rightarrow> string pydict py" where
  "cg1_memtune h =
     bindM (get_cgroup_path h (Some ''memory'')) (\<lambda>cgroup_path.
       (case py_int (py_strip (getconf_PAGE_SIZE h)) of
          None \<Rightarrow> raiseM ValueError
        | Some page_size \<Rightarrow>
            bindM (log_msg DEBUG (''page_size is '' @ py_str page_size)) (\<lambda>_.
              (let max_mem_value = (if page_size = 65536 then ''9223372036854710272''
                                    else ''9223372036854771712'')
               in bindM (log_msg DEBUG (''max_mem_value is '' @ max_mem_value)) (\<lambda>_.
                    foldM (cg1_mem_item h cgroup_path max_mem_value)
                      CGROUP_V1_MEM_FILE_MAPPING [])))))"

definition subst_placeholders ::
  "string list option \<Rightarrow> string list option \<Rightarrow> string \<Rightarrow> error + string option" where
  \<comment> \<open>lines 221 to 229 (and 291 to 299): the file name with its placeholder replaced by the
      first sub-directory; \<open>None\<close> is the \<^verbatim>\<open>continue\<close> of an entry for an iothread when
      there is none\<close>
  "subst_placeholders vcpu_dirs iothread_dirs cg_file_name =
     (case (if py_in ''<vcpuX>'' cg_file_name
            then (case vcpu_dirs of
                    None \<Rightarrow> Inl TypeError
                  | Some [] \<Rightarrow> Inl IndexError
                  | Some (d # _) \<Rightarrow> Inr (py_replace ''<vcpuX>'' d cg_file_name))
            else Inr cg_file_name) of
        Inl e \<Rightarrow> Inl e
      | Inr name \<Rightarrow>
          if py_in ''<iothreadX>'' name
          then (case iothread_dirs of
                  Some (d # _) \<Rightarrow> Inr (Some (py_replace ''<iothreadX>'' d name))
                | _ \<Rightarrow> Inr None)
          else Inr (Some name))"

definition cg1_sched_value :: "string \<Rightarrow> string \<Rightarrow> string" where
  \<comment> \<open>lines 232 to 243: the value stored for a key, from the text of its file\<close>
  "cg1_sched_value cg_key cg_file =
     (let max_cpu_value = ''-1'';
          v0 = py_strip cg_file;
          cg_file_value = (if v0 = max_cpu_value then ''max'' else v0)
      in if py_in ''quota'' cg_key
            \<and> cg_file_value \<in> set [''-1'', ''18446744073709551'', ''17592186044415'']
         then ''max''
         else cg_file_value)"

definition cg1_sched_item ::
  "host \<Rightarrow> string option \<Rightarrow> string list option \<Rightarrow> string list option \<Rightarrow> string \<times> string
     \<Rightarrow> string pydict \<Rightarrow> string pydict py" where
  "cg1_sched_item h cgroup_path vcpu_dirs iothread_dirs item info =
     (case item of (cg_key, cg_file_name0) \<Rightarrow>
        bindM (liftE (subst_placeholders vcpu_dirs iothread_dirs cg_file_name0)) (\<lambda>name.
          case name of
            None \<Rightarrow> returnM info
          | Some cg_file_name \<Rightarrow>
              bindM (liftE (get_cg_file_path cg_key cgroup_path cg_file_name)) (\<lambda>cg_file_path.
              bindM (open_read h cg_file_path) (\<lambda>cg_file.
                returnM (AList.update cg_key (Str (cg1_sched_value cg_key cg_file)) info)))))"

definition cg1_schedinfo :: "host \<Rightarrow> string pydict py" where
  "cg1_schedinfo h =
     bindM (get_cgroup_path h (Some ''cpu,cpuacct'')) (\<lambda>p0.
       case p0 of
         None \<Rightarrow> raiseM TypeError
       | Some p \<Rightarrow>
           (let cgroup_path = Some (p @ ''/..'')
            in bindM (get_cpu_subdirs h cgroup_path ''vcpu'') (\<lambda>vcpu_dirs.
               bindM (get_cpu_subdirs h cgroup_path ''iothread'') (\<lambda>iothread_dirs.
                 foldM (cg1_sched_item h cgroup_path vcpu_dirs iothread_dirs)
                   CGROUP_V1_SCHEDINFO_FILE_MAPPING []))))"

definition get_standardized_cgroup1_info :: "host \<Rightarrow> string \<Rightarrow> string pydict py" where
  "get_standardized_cgroup1_info h virsh_cmd =
     (if virsh_cmd = ''blkiotune'' then cg1_blkiotune h
      else if virsh_cmd = ''memtune'' then cg1_memtune h
      else if virsh_cmd = ''schedinfo'' then cg1_schedinfo h
      else bindM (log_msg ERROR (''You'' @ [quote] @ ''ve provided a wrong virsh cmd: '' @ virsh_cmd))
             (\<lambda>_. returnM []))"

section \<open>Kernel-state reader, cgroup v2\<close>

definition re_search_digits :: "string \<Rightarrow> string option" where
  \<comment> \<open>\<^verbatim>\<open>re.search(r"\d+", text)\<close> and \<^verbatim>\<open>group()\<close>: the first run of digits, if any\<close>
  "re_search_digits text =
     (case dropWhile (\<lambda>c. \<not> is_digit c) text of
        [] \<Rightarrow> None
      | r \<Rightarrow> Some (takeWhile is_digit r))"

definition dict_get :: "('k \<times> 'v) list \<Rightarrow> 'k \<Rightarrow> error + 'v" where
  \<comment> \<open>\<^verbatim>\<open>d[k]\<close>\<close>
  "dict_get d k = (case map_of d k of None \<Rightarrow> Inl KeyError | Some v \<Rightarrow> Inr v)"

definition list_get :: "'a list \<Rightarrow> nat \<Rightarrow> error + 'a" where
  \<comment> \<open>\<^verbatim>\<open>xs[i]\<close> for an index that is not negative\<close>
  "list_get xs i = (if i < length xs then Inr (xs ! i) else Inl IndexError)"

definition cg2_iomax_token :: "string \<Rightarrow> (string \<times> string) list \<Rightarrow> error + (string \<times> string) list" where
  \<comment> \<open>lines 279 and 280: unpacking anything but two parts is a ValueError\<close>
  "cg2_iomax_token tok d =
     (case py_split ''='' tok of
        [key, val] \<Rightarrow> Inr (AList.update key val d)
      | _ \<Rightarrow> Inl ValueError)"

definition cg2_iomax_line :: "string \<Rightarrow> string pydict \<Rightarrow> error + string pydict" where
  \<comment> \<open>lines 275 to 281, one line of \<^verbatim>\<open>io.max\<close>\<close>
  "cg2_iomax_line line info =
     (case py_split_ws (py_strip line) of
        [] \<Rightarrow> Inl IndexError
      | dev_num # toks \<Rightarrow>
          (case foldE cg2_iomax_token toks [] of
             Inl e \<Rightarrow> Inl e
           | Inr dev_iomax_dict \<Rightarrow> Inr (AList.update dev_num (Dict dev_iomax_dict) info)))"

definition cg2_blkiotune :: "host \<Rightarrow> string option \<Rightarrow> string pydict py" where
  "cg2_blkiotune h cgroup_path =
     bindM (liftE (dict_get CGROUP_V2_BLKIO_FILE_MAPPING ''weight'')) (\<lambda>weight_file_name.
     bindM (liftE (dict_get CGROUP_V2_BLKIO_FILE_MAPPING ''wiops'')) (\<lambda>iomax_file_name.
       (case cgroup_path of
          None \<Rightarrow> raiseM AttributeError
        | Some p \<Rightarrow>
            bindM (open_read h (path_join (split_first ''libvirt'' p) weight_file_name)) (\<lambda>weight_file.
            bindM (open_read h (path_join p iomax_file_name)) (\<lambda>iomax_file.
              liftE (foldE cg2_iomax_line (readlines iomax_file)
                [(''weight'', (case re_search_digits weight_file of
                                 None \<Rightarrow> PyNone
                               | Some w \<Rightarrow> Str w))]))))))"

definition cg2_mem_item :: "host \<Rightarrow> string option \<Rightarrow> string \<times> string \<Rightarrow> string pydict \<Rightarrow> string pydict py" where
  \<comment> \<open>lines 284 to 286\<close>
  "cg2_mem_item h cgroup_path item info =
     (case item of (cg_key, cg_file_name) \<Rightarrow>
        (case cgroup_path of
           None \<Rightarrow> raiseM TypeError
         | Some p \<Rightarrow>
             bindM (open_read h (path_join p cg_file_name)) (\<lambda>cg_file.
               returnM (AList.update cg_key (Str (py_strip cg_file)) info))))"

definition cg2_sched_item ::
  "host \<Rightarrow> string option \<Rightarrow> string list option \<Rightarrow> string list option \<Rightarrow> string \<times> string
     \<Rightarrow> string pydict \<Rightarrow> string pydict py" where
  \<comment> \<open>lines 291 to 308\<close>
  "cg2_sched_item h cgroup_path vcpu_dirs iothread_dirs item info =
     (case item of (cg_key, cg_file_name0) \<Rightarrow>
        bindM (liftE (subst_placeholders vcpu_dirs iothread_dirs cg_file_name0)) (\<lambda>name.
          case name of
            None \<Rightarrow> returnM info
          | Some cg_file_name \<Rightarrow>
              (case cgroup_path of
                 None \<Rightarrow> raiseM (if cg_key = ''cpu_shares'' then AttributeError else TypeError)
               | Some p \<Rightarrow>
                   bindM (open_read h (path_join (if cg_key = ''cpu_shares''
                                                   then split_first ''libvirt'' p else p)
                                         cg_file_name)) (\<lambda>cg_file.
                   bindM (liftE (list_get (py_split_ws (py_strip cg_file))
                                   (if py_in ''period'' cg_key then 1 else 0))) (\<lambda>v.
                     returnM (AList.update cg_key (Str v) info))))))"

definition cg2_schedinfo :: "host \<Rightarrow> string option \<Rightarrow> string pydict py" where
  "cg2_schedinfo h cgroup_path =
     bindM (get_cpu_subdirs h cgroup_path ''vcpu'') (\<lambda>vcpu_dirs.
     bindM (get_cpu_subdirs h cgroup_path ''iothread'') (\<lambda>iothread_dirs.
       foldM (cg2_sched_item h cgroup_path vcpu_dirs iothread_dirs)
         CGROUP_V2_SCHEDINFO_FILE_MAPPING []))"

definition get_standardized_cgroup2_info :: "host \<Rightarrow> string \<Rightarrow> string pydict py" where
  "get_standardized_cgroup2_info h virsh_cmd =
     bindM (get_cgroup_path h None) (\<lambda>cgroup_path.
       if virsh_cmd = ''blkiotune'' then cg2_blkiotune h cgroup_path
       else if virsh_cmd = ''memtune'' then foldM (cg2_mem_item h cgroup_path) CGROUP_V2_MEM_FILE_MAPPING []
       else if virsh_cmd = ''schedinfo'' then cg2_schedinfo h cgroup_path
       else bindM (log_msg ERROR (''You'' @ [quote] @ ''ve provided a wrong virsh cmd: '' @ virsh_cmd))
              (\<lambda>_. returnM []))"


section \<open>Report parser\<close>

definition convert_line :: "string \<Rightarrow> (string \<times> string) list \<Rightarrow> (string \<times> string) list" where
  \<comment> \<open>lines 386 to 392; \<^verbatim>\<open>split\<close> never returns an empty list\<close>
  "convert_line output_line output_dict =
     (case py_split '':'' output_line of
        [] \<Rightarrow> output_dict
      | [p] \<Rightarrow> AList.update (py_strip p) [] output_dict
      | p # v # _ \<Rightarrow> AList.update (py_strip p) (py_strip v) output_dict)"

definition convert_virsh_output_to_dict :: "string \<Rightarrow> (string \<times> string) list" where
  \<comment> \<open>the argument is \<^verbatim>\<open>result.stdout_text\<close>\<close>
  "convert_virsh_output_to_dict stdout_text =
     fold convert_line (py_splitlines (py_strip stdout_text)) []"

definition get_dev_major_minor :: "host \<Rightarrow> string \<Rightarrow> string option py" where
  "get_dev_major_minor h dev_path =
     (case stat_rdev h dev_path of
        None \<Rightarrow> bindM (log_msg DEBUG (''device '' @ [quote] @ dev_path @ [quote] @ '' not existing''))
                  (\<lambda>_. returnM None)
      | Some (major, minor) \<Rightarrow> returnM (Some (py_str (int major) @ '':'' @ py_str (int minor))))"

fun virsh_blkio_values ::
  "host \<Rightarrow> string \<Rightarrow> string list \<Rightarrow> string option pydict \<times> string option list
     \<Rightarrow> (string option pydict \<times> string option list) py" where
  \<comment> \<open>lines 430 to 440: the loop over the indices of \<^verbatim>\<open>io_value_list\<close>, as a loop over its
      suffixes; \<open>attr\<close> is \<^verbatim>\<open>virsh_output_mapping[io_item]\<close>\<close>
  "virsh_blkio_values h attr [] acc = returnM acc"
| "virsh_blkio_values h attr (tok # rest) acc =
     (if py_in ''dev'' tok
      then bindM (get_dev_major_minor h tok) (\<lambda>dev_num.
             (let acc1 = (if dev_num \<notin> set (snd acc)
                          then (AList.update dev_num (Dict dev_init_dict) (fst acc), snd acc @ [dev_num])
                          else acc)
              in case rest of
                   [] \<Rightarrow> raiseM IndexError
                 | v # _ \<Rightarrow>
                     bindM (liftE (set_dev_item dev_num attr v (fst acc1))) (\<lambda>info.
                       virsh_blkio_values h attr rest (info, snd acc1))))
      else virsh_blkio_values h attr rest acc)"

declare virsh_blkio_values.simps [simp del]

definition virsh_blkio_item ::
  "host \<Rightarrow> string \<times> string \<Rightarrow> string option pydict \<times> string option list
     \<Rightarrow> (string option pydict \<times> string option list) py" where
  \<comment> \<open>lines 426 to 440\<close>
  "virsh_blkio_item h item acc =
     (case item of (io_item, io_item_value) \<Rightarrow>
        if io_item \<in> set [''weight'']
        then returnM (AList.update (Some io_item) (Str io_item_value) (fst acc), snd acc)
        else if io_item \<in> set (map fst VIRSH_BLKIOTUNE_OUTPUT_MAPPING) \<and> io_item_value \<noteq> []
        then bindM (liftE (dict_get VIRSH_BLKIOTUNE_OUTPUT_MAPPING io_item)) (\<lambda>attr.
               virsh_blkio_values h attr (py_split '','' io_item_value) acc)
        else returnM acc)"

definition virsh_mem_item :: "string \<times> string \<Rightarrow> string option pydict \<Rightarrow> string option pydict py" where
  \<comment> \<open>lines 448 to 460\<close>
  "virsh_mem_item item info =
     (case item of (mem_item, mem_item_value) \<Rightarrow>
        if mem_item_value \<in> set [''unlimited'']
        then returnM (AList.update (Some mem_item) (Str ''max'') info)
        else if isdigit mem_item_value
        then (case py_int mem_item_value of
                None \<Rightarrow> raiseM ValueError
              | Some n \<Rightarrow> returnM (AList.update (Some mem_item) (Str (py_str (n * 1024))) info))
        else bindM (log_msg DEBUG (''memtune: the value '' @ [quote] @ mem_item_value @ [quote]
                      @ '' for '' @ [quote] @ mem_item @ [quote] @ '' is new to us, pls check.''))
               (\<lambda>_. returnM (AList.update (Some mem_item) (Str mem_item_value) info)))"

definition virsh_sched_item :: "string \<times> string \<Rightarrow> string option pydict \<Rightarrow> string option pydict py" where
  \<comment> \<open>lines 463 to 476\<close>
  "virsh_sched_item item info =
     (case item of (schedinfo_item, schedinfo_value) \<Rightarrow>
        if py_lower schedinfo_item \<in> set [''scheduler'']
        then returnM info
        else if py_in ''quota'' schedinfo_item
        then (if schedinfo_value \<in> set [''18446744073709551'', ''17592186044415'']
              then returnM (AList.update (Some schedinfo_item) (Str ''max'') info)
              else (case py_int schedinfo_value of
                      None \<Rightarrow> raiseM ValueError
                    | Some n \<Rightarrow>
                        if n < 0
                        then returnM (AList.update (Some schedinfo_item) (Str ''max'') info)
                        else returnM (AList.update (Some schedinfo_item) (Str schedinfo_value) info)))
        else returnM (AList.update (Some schedinfo_item) (Str schedinfo_value) info))"

definition get_standardized_virsh_info ::
  "host \<Rightarrow> string \<Rightarrow> (string \<times> string) list \<Rightarrow> string option pydict option py" where
  \<comment> \<open>\<open>virsh_dict\<close> is the items of the dict in their order; the value \<open>None\<close> is the
      \<^verbatim>\<open>return None\<close> of line 479\<close>
  "get_standardized_virsh_info h virsh_cmd virsh_dict =
     (if virsh_cmd = ''blkiotune''
      then bindM (foldM (virsh_blkio_item h) virsh_dict ([], [])) (\<lambda>acc. returnM (Some (fst acc)))
      else if virsh_cmd = ''memtune''
      then bindM (foldM virsh_mem_item virsh_dict
                    [(Some ''hard_limit'', Str ''max''), (Some ''soft_limit'', Str ''max''),
                     (Some ''swap_hard_limit'', Str ''max'')])
             (\<lambda>info. returnM (Some info))
      else if virsh_cmd = ''schedinfo''
      then bindM (foldM virsh_sched_item virsh_dict []) (\<lambda>info. returnM (Some info))
      else bindM (log_msg ERROR (''You'' @ [quote] @ ''ve provided an unsupported virsh cmd: '' @ virsh_cmd))
             (\<lambda>_. returnM None))"

definition state0 :: state where
  \<comment> \<open>the state when the module has just been imported\<close>
  "state0 = \<lparr>CGROUP_V1_BLKIO_FILE_MAPPING = CGROUP_V1_BLKIO_FILE_MAPPING_init, LOG = []\<rparr>"

section \<open>Example hosts\<close>

definition cgroup_v2_files :: "(string \<times> string) list" where
  \<comment> \<open>a host with the unified hierarchy; the process of the VM is in the emulator's cgroup\<close>
  "cgroup_v2_files =
     [(''/proc/mounts'', ''cgroup2 /sys/fs/cgroup cgroup2 rw,nosuid 0 0'' @ [CHR 0x0A]),
      (''/proc/1234/cgroup'', ''0::/machine.slice/vm.scope/libvirt/emulator'' @ [CHR 0x0A]),
      (''/sys/fs/cgroup/machine.slice/vm.scope/cpu.weight'', ''100'' @ [CHR 0x0A]),
      (''/sys/fs/cgroup/machine.slice/vm.scope/libvirt/emulator/../cpu.max'', ''max 100000'' @ [CHR 0x0A]),
      (''/sys/fs/cgroup/machine.slice/vm.scope/libvirt/emulator/../vcpu0/cpu.max'', ''max 100000'' @ [CHR 0x0A]),
      (''/sys/fs/cgroup/machine.slice/vm.scope/libvirt/emulator/../emulator/cpu.max'', ''max 100000'' @ [CHR 0x0A]),
      (''/sys/fs/cgroup/machine.slice/vm.scope/io.bfq.weight'', ''default 100'' @ [CHR 0x0A]),
      (''/sys/fs/cgroup/machine.slice/vm.scope/libvirt/emulator/../io.max'',
         ''8:0 rbps=max wbps=max riops=500 wiops=max'' @ [CHR 0x0A])]"

definition host_v2 :: host where
  "host_v2 =
     \<lparr>vm_pid = ''1234'',
      cgroup2_in_mounts = True,
      files = map_of cgroup_v2_files,
      listdir = map_of [(''/sys/fs/cgroup/machine.slice/vm.scope/libvirt/emulator/..'', [''vcpu0'', ''emulator''])],
      stat_rdev = map_of [(''/sys/fs/cgroup/machine.slice/vm.scope/libvirt/emulator/..'', (0, 0)),
                          (''/dev/sda'', (8, 0))],
      resolve_task_cgroup_path = (\<lambda>pid controller. Inl OSError),
      get_first_disk = ''sda'',
      getconf_PAGE_SIZE = ''4096'' @ [CHR 0x0A]\<rparr>"

definition cgroup_v1_files :: "(string \<times> string) list" where
  \<comment> \<open>a host with the legacy hierarchies and the bfq scheduler\<close>
  "cgroup_v1_files =
     [(''/sys/block/sda/queue/scheduler'', ''mq-deadline kyber [bfq] none'' @ [CHR 0x0A]),
      (''/sys/fs/cgroup/blkio/machine.slice/vm.scope/blkio.bfq.weight'', ''100'' @ [CHR 0x0A]),
      (''/sys/fs/cgroup/blkio/machine.slice/vm.scope/libvirt/emulator/blkio.throttle.write_iops_device'', []),
      (''/sys/fs/cgroup/blkio/machine.slice/vm.scope/libvirt/emulator/blkio.throttle.read_iops_device'',
         ''8:0 500'' @ [CHR 0x0A]),
      (''/sys/fs/cgroup/blkio/machine.slice/vm.scope/libvirt/emulator/blkio.throttle.read_bps_device'', []),
      (''/sys/fs/cgroup/blkio/machine.slice/vm.scope/libvirt/emulator/blkio.throttle.write_bps_device'', []),
      (''/sys/fs/cgroup/cpu,cpuacct/machine.slice/vm.scope/cpu.shares'', ''1024'' @ [CHR 0x0A]),
      (''/sys/fs/cgroup/cpu,cpuacct/machine.slice/vm.scope/libvirt/emulator/../vcpu0/cpu.cfs_period_us'',
         ''100000'' @ [CHR 0x0A]),
      (''/sys/fs/cgroup/cpu,cpuacct/machine.slice/vm.scope/libvirt/emulator/../vcpu0/cpu.cfs_quota_us'',
         ''17592186044415'' @ [CHR 0x0A]),
      (''/sys/fs/cgroup/cpu,cpuacct/machine.slice/vm.scope/libvirt/emulator/../emulator/cpu.cfs_period_us'',
         ''100000'' @ [CHR 0x0A]),
      (''/sys/fs/cgroup/cpu,cpuacct/machine.slice/vm.scope/libvirt/emulator/../emulator/cpu.cfs_quota_us'',
         ''18446744073709551'' @ [CHR 0x0A]),
      (''/sys/fs/cgroup/cpu,cpuacct/machine.slice/vm.scope/libvirt/emulator/../cpu.cfs_period_us'',
         ''100000'' @ [CHR 0x0A]),
      (''/sys/fs/cgroup/cpu,cpuacct/machine.slice/vm.scope/libvirt/emulator/../cpu.cfs_quota_us'',
         ''-1'' @ [CHR 0x0A])]"

definition host_v1 :: host where
  "host_v1 =
     \<lparr>vm_pid = ''1234'',
      cgroup2_in_mounts = False,
      files = map_of cgroup_v1_files,
      listdir = map_of [(''/sys/fs/cgroup/cpu,cpuacct/machine.slice/vm.scope/libvirt/emulator/..'',
                          [''vcpu0'', ''emulator''])],
      stat_rdev = map_of [(''/sys/fs/cgroup/blkio/machine.slice/vm.scope/libvirt/emulator'', (0, 0)),
                          (''/sys/fs/cgroup/cpu,cpuacct/machine.slice/vm.scope/libvirt/emulator'', (0, 0)),
                          (''/dev/sda'', (8, 0))],
      resolve_task_cgroup_path =
        (\<lambda>pid controller.
           case controller of
             None \<Rightarrow> Inl TypeError
           | Some c \<Rightarrow> Inr (''/sys/fs/cgroup/'' @ c @ ''/machine.slice/vm.scope/libvirt/emulator'')),
      get_first_disk = ''sda'',
      getconf_PAGE_SIZE = ''4096'' @ [CHR 0x0A]\<rparr>"

section \<open>Notions used to state the properties\<close>

definition memtune_value :: "string \<Rightarrow> string" where
  \<comment> \<open>what the report parser stores for a field of a memory report, by the three cases of
      the specification: unlimited, a number of KiB, anything else\<close>
  "memtune_value v =
     (if v = ''unlimited'' then ''max''
      else if isdigit v then py_str (int (decimal v) * 1024)
      else v)"

definition line_entry :: "string \<Rightarrow> string \<times> string" where
  \<comment> \<open>the field of one report line, in words: the name is the trimmed text before the first
      colon; the value is the trimmed text between the first colon and the second (or the
      end of the line), and empty for a line without a colon\<close>
  "line_entry l =
     (py_strip (takeWhile (\<lambda>x. x \<noteq> CHR '':'') l),
      if CHR '':'' \<in> set l
      then py_strip (takeWhile (\<lambda>x. x \<noteq> CHR '':'') (tl (dropWhile (\<lambda>x. x \<noteq> CHR '':'') l)))
      else [])"








definition dev_identity :: "host \<Rightarrow> string \<Rightarrow> string option" where
  \<comment> \<open>the identity of a device path: \<open>major:minor\<close> from the device number of the node, and
      \<^verbatim>\<open>None\<close> for a path that does not exist\<close>
  "dev_identity h dev_path =
     map_option (\<lambda>(major, minor). py_str (int major) @ '':'' @ py_str (int minor)) (stat_rdev h dev_path)"



definition no_none :: "'k pydict \<Rightarrow> bool" where
  \<comment> \<open>no value of the dict is \<^verbatim>\<open>None\<close>\<close>
  "no_none info = (\<forall>k. map_of info k \<noteq> Some PyNone)"

definition no_none_but_weight :: "string pydict \<Rightarrow> bool" where
  \<comment> \<open>no value of the dict is \<^verbatim>\<open>None\<close>, the one under \<^verbatim>\<open>weight\<close> apart\<close>
  "no_none_but_weight info = (\<forall>k. k \<noteq> ''weight'' \<longrightarrow> map_of info k \<noteq> Some PyNone)"


section \<open>Basic facts\<close>

lemma bindM_returnM [simp]: "bindM (returnM x) f = f x"
  by (rule ext) (simp add: bindM_def returnM_def)

lemma bindM_raiseM [simp]: "bindM (raiseM e) f = raiseM e"
  by (rule ext) (simp add: bindM_def raiseM_def)

lemma bindM_liftE_Inr [simp]: "bindM (liftE (Inr x)) f = f x"
  by (rule ext) (simp add: bindM_def liftE_def)

lemma bindM_liftE_Inl [simp]: "bindM (liftE (Inl e)) f = raiseM e"
  by (rule ext) (simp add: bindM_def liftE_def raiseM_def)

lemma bindM_log_msg: "bindM (log_msg lvl msg) f s = f () (s\<lparr>LOG := LOG s @ [(lvl, msg)]\<rparr>)"
  by (simp add: bindM_def log_msg_def)

lemma startswith_set: "startswith p s \<Longrightarrow> set p \<subseteq> set s"
  by (induction p arbitrary: s) (auto split: list.splits)

lemma py_in_set: "py_in sub s \<Longrightarrow> set sub \<subseteq> set s"
proof (induction s)
  case Nil
  then show ?case by simp
next
  case (Cons a s)
  then show ?case using startswith_set [of sub "a # s"] by auto
qed

section \<open>The report parser on scheduling reports\<close>

lemma quota_not_scheduler: "py_in ''quota'' k \<Longrightarrow> py_lower k \<noteq> ''scheduler''"
proof
  assume q: "py_in ''quota'' k" and l: "py_lower k = ''scheduler''"
  from q have "CHR ''q'' \<in> set k" using py_in_set by fastforce
  then have "lower_char (CHR ''q'') \<in> set (py_lower k)" by (simp add: py_lower_def)
  then show False unfolding l by (simp add: lower_char_def)
qed

lemma virsh_sched_item_cases:
  "virsh_sched_item item info s = (s, Inl ValueError)
     \<or> (\<exists>info'. virsh_sched_item item info s = (s, Inr info'))"
  by (cases item) (simp add: virsh_sched_item_def returnM_def raiseM_def split: option.splits)

lemma virsh_sched_item_bad:
  assumes "py_in ''quota'' k" "v \<noteq> ''18446744073709551''" "v \<noteq> ''17592186044415''"
    and "py_int v = None"
  shows "virsh_sched_item (k, v) info s = (s, Inl ValueError)"
  using assms quota_not_scheduler [of k] by (simp add: virsh_sched_item_def raiseM_def)

lemma virsh_sched_fold_bad:
  assumes "(k, v) \<in> set d" "py_in ''quota'' k" "v \<noteq> ''18446744073709551''"
    and "v \<noteq> ''17592186044415''" "py_int v = None"
  shows "foldM virsh_sched_item d info s = (s, Inl ValueError)"
  using assms(1)
proof (induction d arbitrary: info)
  case Nil
  then show ?case by simp
next
  case (Cons x d)
  show ?case
  proof (cases "x = (k, v)")
    case True
    then show ?thesis using virsh_sched_item_bad [OF assms(2-5)] by (simp add: bindM_def)
  next
    case False
    with Cons.prems have mem: "(k, v) \<in> set d" by simp
    from virsh_sched_item_cases [of x info s] show ?thesis
      using Cons.IH [OF mem] by (auto simp: bindM_def)
  qed
qed

text \<open>
  Claim C10. A scheduling report with a field whose name contains \<^verbatim>\<open>quota\<close> and whose
  value is neither of the two large sentinels nor an integer literal makes
  \<^verbatim>\<open>get_standardized_virsh_info\<close> raise ValueError (from \<^verbatim>\<open>int(schedinfo_value)\<close> on
  line 469): no dict is returned, and nothing is logged.
\<close>

theorem schedinfo_quota_not_integer_raises:
  assumes "(k, v) \<in> set virsh_dict" and "py_in ''quota'' k"
    and "v \<noteq> ''18446744073709551''" and "v \<noteq> ''17592186044415''"
    and "py_int v = None"
  shows "get_standardized_virsh_info h ''schedinfo'' virsh_dict s = (s, Inl ValueError)"
  using virsh_sched_fold_bad [OF assms, of "[]" s]
  by (simp add: get_standardized_virsh_info_def bindM_def)

theorem schedinfo_quota_not_integer_raises_witness:
  "get_standardized_virsh_info host_v2 ''schedinfo''
     [(''cpu_shares'', ''1024''), (''vcpu_quota'', ''max'')] state0 = (state0, Inl ValueError)"
proof (rule schedinfo_quota_not_integer_raises [of "''vcpu_quota''" "''max''"])
  show "(''vcpu_quota'', ''max'') \<in> set [(''cpu_shares'', ''1024''), (''vcpu_quota'', ''max'')]"
    by simp
  show "py_in ''quota'' ''vcpu_quota''" by simp
  show "''max'' \<noteq> ''18446744073709551''" by simp
  show "''max'' \<noteq> ''17592186044415''" by simp
  show "py_int ''max'' = None" by (simp add: py_int_def is_c_space_def is_digit_def)
qed

section \<open>Unrecognized domains\<close>





section \<open>The report parser on memory reports\<close>

lemma dropWhile_none: "\<forall>c\<in>set v. \<not> P c \<Longrightarrow> dropWhile P v = v"
  by (cases v) auto

lemma is_digit_not_space: "is_digit c \<Longrightarrow> \<not> isspace c"
  by (auto simp: is_digit_def isspace_def)

lemma py_strip_digits: "list_all is_digit v \<Longrightarrow> py_strip v = v"
  by (simp add: py_strip_def dropWhile_none is_digit_not_space list_all_iff)

lemma int_body_ok_digits: "v \<noteq> [] \<Longrightarrow> list_all is_digit v \<Longrightarrow> int_body_ok v"
  by (induction v rule: int_body_ok.induct) (auto simp: is_digit_def)

lemma filter_underscore_digits: "list_all is_digit v \<Longrightarrow> filter (\<lambda>c. c \<noteq> CHR ''_'') v = v"
  by (induction v) (auto simp: is_digit_def)

lemma is_digit_not_c_space: "is_digit c \<Longrightarrow> \<not> is_c_space c"
  by (auto simp: is_digit_def is_c_space_def)

lemma c_strip_digits:
  "list_all is_digit v \<Longrightarrow> rev (dropWhile is_c_space (rev (dropWhile is_c_space v))) = v"
  by (simp add: dropWhile_none is_digit_not_c_space list_all_iff)

lemma py_int_isdigit: "isdigit v \<Longrightarrow> py_int v = Some (int (decimal v))"
proof -
  assume d: "isdigit v"
  then have ne: "v \<noteq> []" and all: "list_all is_digit v" by (simp_all add: isdigit_def)
  from ne all have "is_digit (hd v)" by (cases v) simp_all
  then have "hd v \<noteq> CHR ''-''" "hd v \<noteq> CHR ''+''" by (auto simp: is_digit_def)
  then show ?thesis
    using ne all by (simp add: py_int_def c_strip_digits int_body_ok_digits filter_underscore_digits)
qed

lemma virsh_mem_item_eq:
  "\<exists>s'. virsh_mem_item (k, v) info s = (s', Inr (AList.update (Some k) (Str (memtune_value v)) info))"
  by (simp add: virsh_mem_item_def memtune_value_def py_int_isdigit returnM_def bindM_log_msg)

lemma virsh_mem_fold_eq:
  "\<exists>s'. foldM virsh_mem_item d info s =
     (s', Inr (fold (\<lambda>(k, v). AList.update (Some k) (Str (memtune_value v))) d info))"
proof (induction d arbitrary: info s)
  case Nil
  then show ?case by (simp add: returnM_def)
next
  case (Cons x d)
  obtain k v where x: "x = (k, v)" by (cases x)
  from virsh_mem_item_eq [of k v info s] obtain s1 where
    s1: "virsh_mem_item (k, v) info s = (s1, Inr (AList.update (Some k) (Str (memtune_value v)) info))" ..
  from Cons.IH [of "AList.update (Some k) (Str (memtune_value v)) info" s1]
  show ?case by (simp add: x bindM_def s1)
qed

lemma fold_update_other:
  "k \<notin> fst ` set d \<Longrightarrow> inj f \<Longrightarrow>
   map_of (fold (\<lambda>(k, v). AList.update (f k) (g v)) d info) (f k) = map_of info (f k)"
  by (induction d arbitrary: info) (auto simp: update_conv' inj_eq)

lemma fold_update_distinct:
  "distinct (map fst d) \<Longrightarrow> (k, v) \<in> set d \<Longrightarrow> inj f \<Longrightarrow>
   map_of (fold (\<lambda>(k, v). AList.update (f k) (g v)) d info) (f k) = Some (g v)"
proof (induction d arbitrary: info)
  case Nil
  then show ?case by simp
next
  case (Cons x d)
  show ?case
  proof (cases "x = (k, v)")
    case True
    with Cons.prems have "k \<notin> fst ` set d" by auto
    then show ?thesis using Cons.prems(3) True by (simp add: fold_update_other update_conv')
  next
    case False
    with Cons.prems have "(k, v) \<in> set d" "distinct (map fst d)" by auto
    then show ?thesis using Cons.IH Cons.prems(3) by (cases x) simp
  qed
qed

lemma memtune_report_result:
  "\<exists>s'. get_standardized_virsh_info h ''memtune'' d s =
     (s', Inr (Some (fold (\<lambda>(k, v). AList.update (Some k) (Str (memtune_value v))) d
        [(Some ''hard_limit'', Str ''max''), (Some ''soft_limit'', Str ''max''),
         (Some ''swap_hard_limit'', Str ''max'')])))"
proof -
  obtain s' where "foldM virsh_mem_item d
        [(Some ''hard_limit'', Str ''max''), (Some ''soft_limit'', Str ''max''),
         (Some ''swap_hard_limit'', Str ''max'')] s =
     (s', Inr (fold (\<lambda>(k, v). AList.update (Some k) (Str (memtune_value v))) d
        [(Some ''hard_limit'', Str ''max''), (Some ''soft_limit'', Str ''max''),
         (Some ''swap_hard_limit'', Str ''max'')]))"
    using virsh_mem_fold_eq by blast
  then show ?thesis
    by (simp add: get_standardized_virsh_info_def bindM_def returnM_def)
qed

lemma digit_val_digit_chr: "d < 10 \<Longrightarrow> digit_val (digit_chr d) = d"
proof -
  assume "d < 10"
  then have "d \<in> {0, 1, 2, 3, 4, 5, 6, 7, 8, 9}" by auto
  then show ?thesis by (auto simp: digit_val_def digit_chr_def)
qed

lemma decimal_snoc: "decimal (xs @ [c]) = 10 * decimal xs + digit_val c"
  by (simp add: decimal_def)

lemma decimal_str_nat: "decimal (str_nat n) = n"
proof (induction n rule: str_nat.induct)
  case (1 n)
  show ?case
  proof (cases "n < 10")
    case True
    then show ?thesis by (simp add: str_nat.simps [of n] decimal_def digit_val_digit_chr)
  next
    case False
    with 1 have "decimal (str_nat (n div 10)) = n div 10" by simp
    with False show ?thesis
      by (simp add: str_nat.simps [of n] decimal_snoc digit_val_digit_chr)
  qed
qed

lemma is_digit_digit_chr: "d < 10 \<Longrightarrow> is_digit (digit_chr d)"
  unfolding digit_chr_def is_digit_def by (rule nth_mem) simp

lemma isdigit_str_nat: "isdigit (str_nat n)"
proof (induction n rule: str_nat.induct)
  case (1 n)
  show ?case
  proof (cases "n < 10")
    case True
    then show ?thesis by (simp add: str_nat.simps [of n] isdigit_def is_digit_digit_chr)
  next
    case False
    with 1 have "isdigit (str_nat (n div 10))" by simp
    with False show ?thesis
      by (simp add: str_nat.simps [of n] isdigit_def is_digit_digit_chr)
  qed
qed

text \<open>
  Claim C2, as amended. For every field of a memory report (the items of a dict, so with
  distinct names), the parser stores under the field's own name: \<^verbatim>\<open>max\<close> for the value
  \<^verbatim>\<open>unlimited\<close>, the decimal string of 1024 times the number for a value made of digits,
  and the value itself otherwise. No table renames the fields of a memory report.
\<close>

theorem memtune_report_field:
  assumes "distinct (map fst virsh_dict)" and "(k, v) \<in> set virsh_dict"
  shows "\<exists>s' info.
           get_standardized_virsh_info h ''memtune'' virsh_dict s = (s', Inr (Some info))
           \<and> map_of info (Some k) =
               Some (Str (if v = ''unlimited'' then ''max''
                          else if isdigit v then py_str (int (decimal v) * 1024)
                          else v))"
proof -
  from memtune_report_result [of h virsh_dict s] obtain s' where
    r: "get_standardized_virsh_info h ''memtune'' virsh_dict s =
     (s', Inr (Some (fold (\<lambda>(k, v). AList.update (Some k) (Str (memtune_value v))) virsh_dict
        [(Some ''hard_limit'', Str ''max''), (Some ''soft_limit'', Str ''max''),
         (Some ''swap_hard_limit'', Str ''max'')])))" ..
  have "inj (Some :: string \<Rightarrow> string option)" by simp
  from fold_update_distinct [OF assms this, of "\<lambda>v. Str (memtune_value v)"]
  show ?thesis unfolding r by (simp add: memtune_value_def)
qed

lemma convert_hard_limit:
  "convert_virsh_output_to_dict ''hard_limit: 2097152'' = [(''hard_limit'', ''2097152'')]"
  by code_simp

lemma py_str_2097152_KiB: "py_str (int (decimal ''2097152'') * 1024) = ''2147483648''"
  by (simp add: py_str_def decimal_def digit_val_def str_nat.simps digit_chr_def)

theorem memtune_report_field_witness:
  "\<exists>s' info.
     get_standardized_virsh_info host_v2 ''memtune''
       (convert_virsh_output_to_dict ''hard_limit: 2097152'') state0 = (s', Inr (Some info))
     \<and> map_of info (Some ''hard_limit'') = Some (Str ''2147483648'')"
proof -
  have d: "distinct (map fst [(''hard_limit'', ''2097152'')])" by simp
  have m: "(''hard_limit'', ''2097152'') \<in> set [(''hard_limit'', ''2097152'')]" by simp
  have v: "isdigit ''2097152''" "''2097152'' \<noteq> ''unlimited''" by (simp_all add: isdigit_def is_digit_def)
  from memtune_report_field [OF d m, of host_v2 state0]
  show ?thesis unfolding convert_hard_limit by (simp only: v if_True if_False py_str_2097152_KiB)
qed

lemma convert_max_memory:
  "convert_virsh_output_to_dict ''max_memory: 2097152'' = [(''max_memory'', ''2097152'')]"
  by code_simp

theorem memtune_max_memory_counterexample:
  "get_standardized_virsh_info host_v2 ''memtune''
     (convert_virsh_output_to_dict ''max_memory: 2097152'') state0
   = (state0, Inr (Some [(Some ''hard_limit'', Str ''max''), (Some ''soft_limit'', Str ''max''),
        (Some ''swap_hard_limit'', Str ''max''), (Some ''max_memory'', Str ''2147483648'')]))"
  unfolding convert_max_memory
  by (simp add: get_standardized_virsh_info_def virsh_mem_item_def isdigit_def is_digit_def
      py_int_def is_c_space_def decimal_def digit_val_def py_str_def str_nat.simps
      digit_chr_def returnM_def bindM_def)

section \<open>The first stage of the report parser\<close>

lemma py_split_nonempty: "py_split sep s \<noteq> []"
  by (induction sep s rule: py_split.induct) (auto split: list.splits)

lemma py_split_char:
  "py_split [c] s =
     takeWhile (\<lambda>x. x \<noteq> c) s # (if c \<in> set s then py_split [c] (tl (dropWhile (\<lambda>x. x \<noteq> c) s)) else [])"
proof (induction s)
  case Nil
  then show ?case by simp
next
  case (Cons x s)
  show ?case
  proof (cases "x = c")
    case True
    then show ?thesis by simp
  next
    case False
    then show ?thesis using Cons.IH by (simp split: list.splits)
  qed
qed

lemma convert_line_entry:
  "convert_line l d = AList.update (fst (line_entry l)) (snd (line_entry l)) d"
proof (cases "CHR '':'' \<in> set l")
  case True
  then show ?thesis
    by (simp add: convert_line_def line_entry_def py_split_char [of "CHR '':''" l]
        py_split_char [of "CHR '':''" "tl (dropWhile (\<lambda>x. x \<noteq> CHR '':'') l)"])
next
  case False
  then show ?thesis
    by (simp add: convert_line_def line_entry_def py_split_char [of "CHR '':''" l])
qed


lemma convert_distinct: "distinct (map fst (convert_virsh_output_to_dict t))"
proof -
  have "distinct (map fst d) \<Longrightarrow> distinct (map fst (fold convert_line ls d))" for ls d
    by (induction ls arbitrary: d) (simp_all add: convert_line_entry distinct_update)
  then show ?thesis by (simp add: convert_virsh_output_to_dict_def)
qed



section \<open>Path resolver\<close>







section \<open>Loop invariants\<close>

lemma foldM_invariant:
  assumes step: "\<And>x a s s' b. x \<in> set xs \<Longrightarrow> I a \<Longrightarrow> f x a s = (s', Inr b) \<Longrightarrow> I b"
    and "I a" and "snd (foldM f xs a s) = Inr b"
  shows "I b"
  using assms
proof (induction xs arbitrary: a s)
  case Nil
  then show ?case by (simp add: returnM_def)
next
  case (Cons x xs)
  from Cons.prems(3) obtain s1 a1 where
    f: "f x a s = (s1, Inr a1)" and r: "snd (foldM f xs a1 s1) = Inr b"
    by (auto simp: bindM_def split: prod.splits sum.splits)
  have a1: "I a1" using Cons.prems(1) [of x a s s1 a1] Cons.prems(2) f by simp
  show ?case
  proof (rule Cons.IH [OF _ a1 r])
    fix y c t t' d
    assume "y \<in> set xs" "I c" "f y c t = (t', Inr d)"
    then show "I d" using Cons.prems(1) [of y c t t' d] by simp
  qed
qed

lemma foldE_invariant:
  assumes step: "\<And>x a b. x \<in> set xs \<Longrightarrow> I a \<Longrightarrow> f x a = Inr b \<Longrightarrow> I b"
    and "I a" and "foldE f xs a = Inr b"
  shows "I b"
  using assms
proof (induction xs arbitrary: a)
  case Nil
  then show ?case by simp
next
  case (Cons x xs)
  from Cons.prems(3) obtain a1 where f: "f x a = Inr a1" and r: "foldE f xs a1 = Inr b"
    by (auto split: sum.splits)
  have a1: "I a1" using Cons.prems(1) [of x a a1] Cons.prems(2) f by simp
  show ?case
  proof (rule Cons.IH [OF _ a1 r])
    fix y c d
    assume "y \<in> set xs" "I c" "f y c = Inr d"
    then show "I d" using Cons.prems(1) [of y c d] by simp
  qed
qed

section \<open>The cgroup v2 reader on scheduling\<close>






section \<open>The cgroup v1 reader on scheduling\<close>




lemma host_v1_schedinfo:
  "snd (get_standardized_cgroup1_info host_v1 ''schedinfo'' state0) =
     Inr [(''cpu_shares'', Str ''1024''), (''vcpu_period'', Str ''100000''), (''vcpu_quota'', Str ''max''),
          (''emulator_period'', Str ''100000''), (''emulator_quota'', Str ''max''),
          (''global_period'', Str ''100000''), (''global_quota'', Str ''max'')]"
  by code_simp



section \<open>Per-device entries of block I/O maps\<close>









lemma get_dev_major_minor_result:
  "\<exists>s'. get_dev_major_minor h dev_path s = (s', Inr (dev_identity h dev_path))"
  by (cases "stat_rdev h dev_path")
     (auto simp: get_dev_major_minor_def dev_identity_def bindM_log_msg returnM_def)

lemma virsh_blkio_values_step:
  assumes "py_in ''dev'' tok"
    and "snd (virsh_blkio_values h attr (tok # rest) acc s) = Inr acc'"
  shows "\<exists>v rest' info s1.
           rest = v # rest'
           \<and> set_dev_item (dev_identity h tok) attr v
                (if dev_identity h tok \<notin> set (snd acc)
                 then AList.update (dev_identity h tok) (Dict dev_init_dict) (fst acc) else fst acc) = Inr info
           \<and> snd (virsh_blkio_values h attr rest
                (info, if dev_identity h tok \<notin> set (snd acc) then snd acc @ [dev_identity h tok] else snd acc) s1)
               = Inr acc'"
proof -
  obtain s1 where g: "get_dev_major_minor h tok s = (s1, Inr (dev_identity h tok))"
    using get_dev_major_minor_result by blast
  from assms have "snd (bindM (get_dev_major_minor h tok) (\<lambda>dev_num.
             (let acc1 = (if dev_num \<notin> set (snd acc)
                          then (AList.update dev_num (Dict dev_init_dict) (fst acc), snd acc @ [dev_num])
                          else acc)
              in case rest of
                   [] \<Rightarrow> raiseM IndexError
                 | v # _ \<Rightarrow>
                     bindM (liftE (set_dev_item dev_num attr v (fst acc1))) (\<lambda>info.
                       virsh_blkio_values h attr rest (info, snd acc1)))) s) = Inr acc'"
    by (simp only: virsh_blkio_values.simps if_True)
  with g show ?thesis
    by (auto simp: bindM_def Let_def raiseM_def liftE_def split: list.splits sum.splits if_splits)
qed









lemma host_v2_blkiotune:
  "snd (get_standardized_cgroup2_info host_v2 ''blkiotune'' state0) =
     Inr [(''weight'', Str ''100''),
          (''8:0'', Dict [(''rbps'', ''max''), (''wbps'', ''max''), (''riops'', ''500''), (''wiops'', ''max'')])]"
  by code_simp






section \<open>Device paths of a block I/O report\<close>









lemma host_v1_report_sda:
  "snd (get_standardized_virsh_info host_v1 ''blkiotune''
          [(''weight'', ''100''), (''device_read_iops_sec'', ''/dev/sda,500'')] state0) =
     Inr (Some [(Some ''weight'', Str ''100''),
                (Some ''8:0'', Dict [(''rbps'', ''max''), (''wbps'', ''max''), (''riops'', ''500''), (''wiops'', ''max'')])])"
  by code_simp



section \<open>Values of canonical attribute maps\<close>

lemma no_none_empty: "no_none []"
  by (simp add: no_none_def)

lemma no_none_Str: "no_none info \<Longrightarrow> no_none (AList.update k (Str v) info)"
  by (simp add: no_none_def update_conv')

lemma no_none_Dict: "no_none info \<Longrightarrow> no_none (AList.update k (Dict d) info)"
  by (simp add: no_none_def update_conv')

lemma no_none_set_dev_item: "no_none info \<Longrightarrow> set_dev_item k a v info = Inr info' \<Longrightarrow> no_none info'"
  by (auto simp: set_dev_item_def no_none_Dict split: option.splits pyval.splits)

lemma no_none_virsh_blkio_values:
  assumes "no_none (fst acc)" and "snd (virsh_blkio_values h attr toks acc s) = Inr acc'"
  shows "no_none (fst acc')"
  using assms
proof (induction toks arbitrary: acc s)
  case Nil
  then show ?case by (simp add: returnM_def virsh_blkio_values.simps)
next
  case (Cons tok rest)
  show ?case
  proof (cases "py_in ''dev'' tok")
    case True
    from virsh_blkio_values_step [OF True Cons.prems(2)] obtain v rest' info s1 where
      s: "set_dev_item (dev_identity h tok) attr v
                (if dev_identity h tok \<notin> set (snd acc)
                 then AList.update (dev_identity h tok) (Dict dev_init_dict) (fst acc) else fst acc) = Inr info"
      and r: "snd (virsh_blkio_values h attr rest
                (info, if dev_identity h tok \<notin> set (snd acc) then snd acc @ [dev_identity h tok] else snd acc) s1)
               = Inr acc'"
      by blast
    have "no_none (if dev_identity h tok \<notin> set (snd acc)
                 then AList.update (dev_identity h tok) (Dict dev_init_dict) (fst acc) else fst acc)"
      using Cons.prems(1) by (simp add: no_none_Dict)
    from no_none_set_dev_item [OF this s] have "no_none info" .
    with Cons.IH [OF _ r] show ?thesis by simp
  next
    case False
    with Cons.prems(2) have "snd (virsh_blkio_values h attr rest acc s) = Inr acc'"
      by (simp add: virsh_blkio_values.simps)
    with Cons.IH [OF Cons.prems(1)] show ?thesis by simp
  qed
qed

lemma no_none_virsh_blkio_item:
  assumes "no_none (fst acc)" and "virsh_blkio_item h item acc s = (s', Inr acc')"
  shows "no_none (fst acc')"
proof -
  obtain io_item io_item_value where item: "item = (io_item, io_item_value)" by (cases item)
  show ?thesis
  proof (cases "io_item \<in> set [''weight'']")
    case True
    with assms show ?thesis by (auto simp: item virsh_blkio_item_def returnM_def no_none_Str)
  next
    case False
    show ?thesis
    proof (cases "io_item \<in> set (map fst VIRSH_BLKIOTUNE_OUTPUT_MAPPING) \<and> io_item_value \<noteq> []")
      case True
      with False assms(2) obtain attr where
        "virsh_blkio_values h attr (py_split '','' io_item_value) acc s = (s', Inr acc')"
        by (cases "dict_get VIRSH_BLKIOTUNE_OUTPUT_MAPPING io_item")
           (auto simp: item virsh_blkio_item_def raiseM_def)
      then have "snd (virsh_blkio_values h attr (py_split '','' io_item_value) acc s) = Inr acc'"
        by simp
      with assms(1) show ?thesis by (rule no_none_virsh_blkio_values)
    next
      case c: False
      with False assms show ?thesis by (auto simp: item virsh_blkio_item_def returnM_def)
    qed
  qed
qed

lemma no_none_virsh_mem_item:
  assumes "no_none info" and "virsh_mem_item item info s = (s', Inr info')"
  shows "no_none info'"
proof -
  obtain k v where item: "item = (k, v)" by (cases item)
  from virsh_mem_item_eq [of k v info s] assms(2)
  have "info' = AList.update (Some k) (Str (memtune_value v)) info" by (auto simp: item)
  with assms(1) show ?thesis by (simp add: no_none_Str)
qed

lemma no_none_virsh_sched_item:
  assumes "no_none info" and "virsh_sched_item item info s = (s', Inr info')"
  shows "no_none info'"
proof -
  obtain k v where item: "item = (k, v)" by (cases item)
  from assms(2) have "info' = info \<or> (\<exists>t. info' = AList.update (Some k) (Str t) info)"
    by (auto simp: item virsh_sched_item_def returnM_def raiseM_def split: if_splits option.splits)
  with assms(1) show ?thesis by (auto simp: no_none_Str)
qed

lemma no_none_report:
  assumes "snd (get_standardized_virsh_info h virsh_cmd virsh_dict s) = Inr (Some info)"
  shows "no_none info"
proof -
  consider (blk) "virsh_cmd = ''blkiotune''" | (mem) "virsh_cmd = ''memtune''"
    | (sched) "virsh_cmd = ''schedinfo''"
    | (other) "virsh_cmd \<noteq> ''blkiotune''" "virsh_cmd \<noteq> ''memtune''" "virsh_cmd \<noteq> ''schedinfo''"
    by blast
  then show ?thesis
  proof cases
    case blk
    with assms obtain s4 acc where
      f0: "foldM (virsh_blkio_item h) virsh_dict ([], []) s = (s4, Inr acc)" and i: "info = fst acc"
      by (auto simp: get_standardized_virsh_info_def bindM_def returnM_def
          split: prod.splits sum.splits)
    then have f: "snd (foldM (virsh_blkio_item h) virsh_dict ([], []) s) = Inr acc" by simp
    have "no_none (fst acc)"
    proof (rule foldM_invariant [where I = "\<lambda>a. no_none (fst a)", OF _ _ f])
      show "no_none (fst ([], []))" by (simp add: no_none_empty)
    next
      fix x a s s' b
      assume "no_none (fst a)" "virsh_blkio_item h x a s = (s', Inr b)"
      then show "no_none (fst b)" by (rule no_none_virsh_blkio_item)
    qed
    then show ?thesis by (simp add: i)
  next
    case mem
    with assms obtain s4 where
      f0: "foldM virsh_mem_item virsh_dict
                    [(Some ''hard_limit'', Str ''max''), (Some ''soft_limit'', Str ''max''),
                     (Some ''swap_hard_limit'', Str ''max'')] s = (s4, Inr info)"
      by (auto simp: get_standardized_virsh_info_def bindM_def returnM_def
          split: prod.splits sum.splits)
    then have f: "snd (foldM virsh_mem_item virsh_dict
                    [(Some ''hard_limit'', Str ''max''), (Some ''soft_limit'', Str ''max''),
                     (Some ''swap_hard_limit'', Str ''max'')] s) = Inr info" by simp
    show ?thesis
    proof (rule foldM_invariant [where I = no_none, OF _ _ f])
      show "no_none [(Some ''hard_limit'', Str ''max''), (Some ''soft_limit'', Str ''max''),
                     (Some ''swap_hard_limit'', Str ''max'')]"
        by (simp add: no_none_def)
    next
      fix x a s s' b
      assume "no_none a" "virsh_mem_item x a s = (s', Inr b)"
      then show "no_none b" by (rule no_none_virsh_mem_item)
    qed
  next
    case sched
    with assms obtain s4 where
      f0: "foldM virsh_sched_item virsh_dict [] s = (s4, Inr info)"
      by (auto simp: get_standardized_virsh_info_def bindM_def returnM_def
          split: prod.splits sum.splits)
    then have f: "snd (foldM virsh_sched_item virsh_dict [] s) = Inr info" by simp
    show ?thesis
    proof (rule foldM_invariant [where I = no_none, OF _ _ f])
      show "no_none []" by (rule no_none_empty)
    next
      fix x a s s' b
      assume "no_none a" "virsh_sched_item x a s = (s', Inr b)"
      then show "no_none b" by (rule no_none_virsh_sched_item)
    qed
  next
    case other
    with assms show ?thesis
      by (simp add: get_standardized_virsh_info_def bindM_log_msg returnM_def)
  qed
qed


lemma no_none_cg1_dev_line:
  assumes "no_none (fst acc)" and "cg1_dev_line cg_key line acc = Inr acc'"
  shows "no_none (fst acc')"
proof -
  from assms(2) obtain dev_num v info' where
    s: "set_dev_item dev_num cg_key v
          (if dev_num \<notin> set (snd acc) then AList.update dev_num (Dict dev_init_dict) (fst acc) else fst acc)
        = Inr info'" and a: "acc' = (info', snd acc @ [dev_num])"
    by (auto simp: cg1_dev_line_def Let_def split: list.splits sum.splits)
  have "no_none (if dev_num \<notin> set (snd acc) then AList.update dev_num (Dict dev_init_dict) (fst acc) else fst acc)"
    using assms(1) by (simp add: no_none_Dict)
  from no_none_set_dev_item [OF this s] show ?thesis by (simp add: a)
qed

lemma no_none_cg1_blkio_item:
  assumes "no_none (fst acc)" and "cg1_blkio_item h cgroup_path item acc s = (s', Inr acc')"
  shows "no_none (fst acc')"
proof -
  obtain cg_key fname where item: "item = (cg_key, fname)" by (cases item)
  from assms(2) obtain path where path: "get_cg_file_path cg_key cgroup_path fname = Inr path"
    by (cases "get_cg_file_path cg_key cgroup_path fname") (auto simp: item cg1_blkio_item_def raiseM_def)
  from assms(2) path obtain raw where raw: "files h path = Some raw"
    by (cases "files h path") (auto simp: item cg1_blkio_item_def open_read_def raiseM_def bindM_def)
  let ?acc1 = "if cg_key \<in> set [''weight'']
               then (AList.update cg_key (Str (py_strip (universal_newlines raw))) (fst acc), snd acc)
               else acc"
  have a1: "no_none (fst ?acc1)" using assms(1) by (simp add: no_none_Str)
  show ?thesis
  proof (cases "cg_key \<in> set [''rbps'', ''wbps'', ''riops'', ''wiops'', ''weight_device'']")
    case True
    with assms(2) path raw have f: "foldE (cg1_dev_line cg_key) (readlines (universal_newlines raw)) ?acc1 = Inr acc'"
      by (simp add: item cg1_blkio_item_def open_read_def bindM_def returnM_def liftE_def Let_def)
    show ?thesis
    proof (rule foldE_invariant [where I = "\<lambda>a. no_none (fst a)", OF _ a1 f])
      fix x a b
      assume "no_none (fst a)" "cg1_dev_line cg_key x a = Inr b"
      then show "no_none (fst b)" by (rule no_none_cg1_dev_line)
    qed
  next
    case False
    with assms(2) path raw have "acc' = ?acc1"
      by (simp add: item cg1_blkio_item_def open_read_def bindM_def returnM_def liftE_def Let_def)
    with a1 show ?thesis by simp
  qed
qed

lemma no_none_cg1_mem_item:
  assumes "no_none info" and "cg1_mem_item h cgroup_path max_mem_value item info s = (s', Inr info')"
  shows "no_none info'"
proof -
  obtain cg_key fname where item: "item = (cg_key, fname)" by (cases item)
  from assms(2) have "\<exists>t. info' = AList.update cg_key (Str t) info"
    by (auto simp: item cg1_mem_item_def open_read_def bindM_def returnM_def raiseM_def Let_def
        split: option.splits)
  with assms(1) show ?thesis by (auto simp: no_none_Str)
qed

lemma cg1_sched_item_result:
  assumes "cg1_sched_item h cgroup_path vcpu_dirs iothread_dirs (cg_key, fname) info s = (s', Inr info')"
  shows "info' = info \<or> (\<exists>t. info' = AList.update cg_key (Str t) info)"
proof (cases "subst_placeholders vcpu_dirs iothread_dirs fname")
  case (Inl e)
  with assms show ?thesis by (simp add: cg1_sched_item_def raiseM_def)
next
  case (Inr name)
  show ?thesis
  proof (cases name)
    case None
    with Inr assms show ?thesis by (simp add: cg1_sched_item_def returnM_def)
  next
    case (Some cg_file_name)
    from assms Inr Some obtain path where path: "get_cg_file_path cg_key cgroup_path cg_file_name = Inr path"
      by (cases "get_cg_file_path cg_key cgroup_path cg_file_name")
         (auto simp: cg1_sched_item_def raiseM_def)
    from assms Inr Some path obtain raw where raw: "files h path = Some raw"
      by (cases "files h path") (auto simp: cg1_sched_item_def open_read_def raiseM_def bindM_def)
    from assms Inr Some path raw show ?thesis
      by (auto simp: cg1_sched_item_def open_read_def bindM_def returnM_def)
  qed
qed

lemma no_none_cg1_sched_item:
  assumes "no_none info"
    and "cg1_sched_item h cgroup_path vcpu_dirs iothread_dirs item info s = (s', Inr info')"
  shows "no_none info'"
proof -
  obtain cg_key fname where item: "item = (cg_key, fname)" by (cases item)
  from cg1_sched_item_result [OF assms(2) [unfolded item]] assms(1)
  show ?thesis by (auto simp: no_none_Str)
qed

lemma no_none_cgroup1:
  assumes "snd (get_standardized_cgroup1_info h virsh_cmd s) = Inr info"
  shows "no_none info"
proof -
  consider (blk) "virsh_cmd = ''blkiotune''" | (mem) "virsh_cmd = ''memtune''"
    | (sched) "virsh_cmd = ''schedinfo''"
    | (other) "virsh_cmd \<noteq> ''blkiotune''" "virsh_cmd \<noteq> ''memtune''" "virsh_cmd \<noteq> ''schedinfo''"
    by blast
  then show ?thesis
  proof cases
    case blk
    with assms obtain cp mapping s3 s4 acc where
      f0: "foldM (cg1_blkio_item h cp) mapping ([], []) s3 = (s4, Inr acc)" and i: "info = fst acc"
      by (auto simp: get_standardized_cgroup1_info_def cg1_blkiotune_def bindM_def returnM_def
          read_blkio_mapping_def split: prod.splits sum.splits)
    then have f: "snd (foldM (cg1_blkio_item h cp) mapping ([], []) s3) = Inr acc" by simp
    have "no_none (fst acc)"
    proof (rule foldM_invariant [where I = "\<lambda>a. no_none (fst a)", OF _ _ f])
      show "no_none (fst ([], []))" by (simp add: no_none_empty)
    next
      fix x a s s' b
      assume "no_none (fst a)" "cg1_blkio_item h cp x a s = (s', Inr b)"
      then show "no_none (fst b)" by (rule no_none_cg1_blkio_item)
    qed
    then show ?thesis by (simp add: i)
  next
    case mem
    with assms obtain cp mx s3 where
      f: "snd (foldM (cg1_mem_item h cp mx) CGROUP_V1_MEM_FILE_MAPPING [] s3) = Inr info"
      by (auto simp: get_standardized_cgroup1_info_def cg1_memtune_def bindM_def returnM_def raiseM_def
          Let_def log_msg_def split: prod.splits sum.splits option.splits)
    show ?thesis
    proof (rule foldM_invariant [where I = no_none, OF _ _ f])
      show "no_none []" by (rule no_none_empty)
    next
      fix x a s s' b
      assume "no_none a" "cg1_mem_item h cp mx x a s = (s', Inr b)"
      then show "no_none b" by (rule no_none_cg1_mem_item)
    qed
  next
    case sched
    with assms obtain s3 cp vd idirs where
      f: "snd (foldM (cg1_sched_item h cp vd idirs) CGROUP_V1_SCHEDINFO_FILE_MAPPING [] s3) = Inr info"
      by (auto simp: get_standardized_cgroup1_info_def cg1_schedinfo_def bindM_def Let_def raiseM_def
          split: prod.splits sum.splits option.splits)
    show ?thesis
    proof (rule foldM_invariant [where I = no_none, OF _ _ f])
      show "no_none []" by (rule no_none_empty)
    next
      fix x a s s' b
      assume "no_none a" "cg1_sched_item h cp vd idirs x a s = (s', Inr b)"
      then show "no_none b" by (rule no_none_cg1_sched_item)
    qed
  next
    case other
    with assms show ?thesis
      by (simp add: get_standardized_cgroup1_info_def bindM_log_msg returnM_def no_none_empty)
  qed
qed

lemma set_update_cases: "(a, b) \<in> set (AList.update k v al) \<Longrightarrow> (a, b) = (k, v) \<or> (a, b) \<in> set al"
  by (induction al) (auto split: if_splits)

lemma isdigit_memtune_value:
  assumes "v = ''unlimited'' \<or> isdigit v"
  shows "memtune_value v = ''max'' \<or> isdigit (memtune_value v)"
proof (cases "v = ''unlimited''")
  case True
  then show ?thesis by (simp add: memtune_value_def)
next
  case False
  with assms have "isdigit v" by simp
  with False have "memtune_value v = str_nat (decimal v * 1024)"
    by (simp add: memtune_value_def py_str_def nat_mult_distrib)
  then show ?thesis by (simp add: isdigit_str_nat)
qed

lemma memtune_fold_values:
  assumes "\<forall>(k, v)\<in>set d. v = ''unlimited'' \<or> isdigit v"
    and "\<forall>(k, x)\<in>set info. \<exists>t. x = Str t \<and> (t = ''max'' \<or> isdigit t)"
  shows "\<forall>(k, x)\<in>set (fold (\<lambda>(k, v). AList.update (Some k) (Str (memtune_value v))) d info).
           \<exists>t. x = Str t \<and> (t = ''max'' \<or> isdigit t)"
  using assms
proof (induction d arbitrary: info)
  case Nil
  then show ?case by simp
next
  case (Cons x d)
  obtain k v where x: "x = (k, v)" by (cases x)
  from Cons.prems(1) have v: "v = ''unlimited'' \<or> isdigit v" and d: "\<forall>(k, v)\<in>set d. v = ''unlimited'' \<or> isdigit v"
    by (auto simp: x)
  have "\<forall>(k', x')\<in>set (AList.update (Some k) (Str (memtune_value v)) info).
           \<exists>t. x' = Str t \<and> (t = ''max'' \<or> isdigit t)"
    using Cons.prems(2) isdigit_memtune_value [OF v] by (auto dest!: set_update_cases)
  from Cons.IH [OF d this] show ?case by (simp add: x)
qed

lemma memtune_report_values_normalized:
  assumes "\<forall>(k, v)\<in>set virsh_dict. v = ''unlimited'' \<or> isdigit v"
  shows "\<exists>s' info.
           get_standardized_virsh_info h ''memtune'' virsh_dict s = (s', Inr (Some info))
           \<and> (\<forall>(k, x)\<in>set info. \<exists>t. x = Str t \<and> (t = ''max'' \<or> isdigit t))"
proof -
  from memtune_report_result [of h virsh_dict s] obtain s' where
    r: "get_standardized_virsh_info h ''memtune'' virsh_dict s =
     (s', Inr (Some (fold (\<lambda>(k, v). AList.update (Some k) (Str (memtune_value v))) virsh_dict
        [(Some ''hard_limit'', Str ''max''), (Some ''soft_limit'', Str ''max''),
         (Some ''swap_hard_limit'', Str ''max'')])))" ..
  have "\<forall>(k, x)\<in>set [(Some ''hard_limit'', Str ''max''), (Some ''soft_limit'', Str ''max''),
         (Some ''swap_hard_limit'', Str ''max'')]. \<exists>t. x = Str t \<and> (t = ''max'' \<or> isdigit t)"
    by simp
  from memtune_fold_values [OF assms this] show ?thesis unfolding r by blast
qed


lemma nnw_Str: "no_none_but_weight info \<Longrightarrow> no_none_but_weight (AList.update k (Str v) info)"
  by (simp add: no_none_but_weight_def update_conv')

lemma nnw_Dict: "no_none_but_weight info \<Longrightarrow> no_none_but_weight (AList.update k (Dict d) info)"
  by (simp add: no_none_but_weight_def update_conv')

lemma nnw_cg2_iomax_line:
  assumes "no_none_but_weight info" and "cg2_iomax_line line info = Inr info'"
  shows "no_none_but_weight info'"
proof -
  from assms(2) have "\<exists>k d. info' = AList.update k (Dict d) info"
    by (auto simp: cg2_iomax_line_def split: list.splits sum.splits)
  with assms(1) show ?thesis by (auto simp: nnw_Dict)
qed

lemma nnw_cg2_blkiotune:
  assumes "snd (cg2_blkiotune h cgroup_path s) = Inr info"
  shows "no_none_but_weight info"
proof -
  from assms obtain lines w where
    f: "foldE cg2_iomax_line lines [(''weight'', w)] = Inr info"
    by (auto simp: cg2_blkiotune_def dict_get_def CGROUP_V2_BLKIO_FILE_MAPPING_def bindM_def
        open_read_def raiseM_def returnM_def liftE_def
        split: option.splits prod.splits sum.splits)
  show ?thesis
  proof (rule foldE_invariant [where I = no_none_but_weight, OF _ _ f])
    show "no_none_but_weight [(''weight'', w)]" by (simp add: no_none_but_weight_def)
  next
    fix x a b
    assume "no_none_but_weight a" "cg2_iomax_line x a = Inr b"
    then show "no_none_but_weight b" by (rule nnw_cg2_iomax_line)
  qed
qed

lemma nnw_cg2_mem_item:
  assumes "no_none_but_weight info" and "cg2_mem_item h cgroup_path item info s = (s', Inr info')"
  shows "no_none_but_weight info'"
proof -
  obtain cg_key fname where item: "item = (cg_key, fname)" by (cases item)
  from assms(2) have "\<exists>t. info' = AList.update cg_key (Str t) info"
    by (auto simp: item cg2_mem_item_def open_read_def bindM_def returnM_def raiseM_def
        split: option.splits)
  with assms(1) show ?thesis by (auto simp: nnw_Str)
qed

lemma cg2_sched_item_result:
  assumes "cg2_sched_item h cgroup_path vcpu_dirs iothread_dirs (cg_key, fname) info s = (s', Inr info')"
  shows "info' = info \<or> (\<exists>t. info' = AList.update cg_key (Str t) info)"
proof (cases "subst_placeholders vcpu_dirs iothread_dirs fname")
  case (Inl e)
  with assms show ?thesis by (simp add: cg2_sched_item_def raiseM_def)
next
  case (Inr name)
  show ?thesis
  proof (cases name)
    case None
    with Inr assms show ?thesis by (simp add: cg2_sched_item_def returnM_def)
  next
    case (Some cg_file_name)
    from assms Inr Some obtain p where p: "cgroup_path = Some p"
      by (cases cgroup_path) (auto simp: cg2_sched_item_def raiseM_def)
    let ?path = "path_join (if cg_key = ''cpu_shares'' then split_first ''libvirt'' p else p) cg_file_name"
    from assms Inr Some p obtain raw where raw: "files h ?path = Some raw"
      by (cases "files h ?path") (auto simp: cg2_sched_item_def open_read_def raiseM_def bindM_def)
    from assms Inr Some p raw show ?thesis
      by (auto simp: cg2_sched_item_def open_read_def raiseM_def bindM_def returnM_def
          list_get_def liftE_def split: if_splits)
  qed
qed

lemma nnw_cg2_sched_item:
  assumes "no_none_but_weight info"
    and "cg2_sched_item h cgroup_path vcpu_dirs iothread_dirs item info s = (s', Inr info')"
  shows "no_none_but_weight info'"
proof -
  obtain cg_key fname where item: "item = (cg_key, fname)" by (cases item)
  from cg2_sched_item_result [OF assms(2) [unfolded item]] assms(1)
  show ?thesis by (auto simp: nnw_Str)
qed

lemma nnw_cgroup2:
  assumes "snd (get_standardized_cgroup2_info h virsh_cmd s) = Inr info"
  shows "no_none_but_weight info"
proof -
  obtain s1 r where g: "get_cgroup_path h None s = (s1, r)" by (cases "get_cgroup_path h None s")
  with assms obtain cp where r: "r = Inr cp"
    by (cases r) (auto simp: get_standardized_cgroup2_info_def bindM_def)
  consider (blk) "virsh_cmd = ''blkiotune''" | (mem) "virsh_cmd = ''memtune''"
    | (sched) "virsh_cmd = ''schedinfo''"
    | (other) "virsh_cmd \<noteq> ''blkiotune''" "virsh_cmd \<noteq> ''memtune''" "virsh_cmd \<noteq> ''schedinfo''"
    by blast
  then show ?thesis
  proof cases
    case blk
    with assms g r have "snd (cg2_blkiotune h cp s1) = Inr info"
      by (simp add: get_standardized_cgroup2_info_def bindM_def)
    then show ?thesis by (rule nnw_cg2_blkiotune)
  next
    case mem
    with assms g r have f: "snd (foldM (cg2_mem_item h cp) CGROUP_V2_MEM_FILE_MAPPING [] s1) = Inr info"
      by (simp add: get_standardized_cgroup2_info_def bindM_def)
    show ?thesis
    proof (rule foldM_invariant [where I = no_none_but_weight, OF _ _ f])
      show "no_none_but_weight []" by (simp add: no_none_but_weight_def)
    next
      fix x a s s' b
      assume "no_none_but_weight a" "cg2_mem_item h cp x a s = (s', Inr b)"
      then show "no_none_but_weight b" by (rule nnw_cg2_mem_item)
    qed
  next
    case sched
    with assms g r obtain s3 vd idirs where
      f: "snd (foldM (cg2_sched_item h cp vd idirs) CGROUP_V2_SCHEDINFO_FILE_MAPPING [] s3) = Inr info"
      by (auto simp: get_standardized_cgroup2_info_def cg2_schedinfo_def bindM_def
          split: prod.splits sum.splits)
    show ?thesis
    proof (rule foldM_invariant [where I = no_none_but_weight, OF _ _ f])
      show "no_none_but_weight []" by (simp add: no_none_but_weight_def)
    next
      fix x a s s' b
      assume "no_none_but_weight a" "cg2_sched_item h cp vd idirs x a s = (s', Inr b)"
      then show "no_none_but_weight b" by (rule nnw_cg2_sched_item)
    qed
  next
    case other
    with assms g r show ?thesis
      by (simp add: get_standardized_cgroup2_info_def bindM_def log_msg_def returnM_def
          no_none_but_weight_def)
  qed
qed

text \<open>
  Claim C8, as amended. The values of a canonical attribute map are the strings found in
  the files or in the report, with the known encodings of "unlimited" replaced by \<^verbatim>\<open>max\<close>;
  they are decimal numbers or \<^verbatim>\<open>max\<close> as far as the input is. For a memory report whose
  values are all \<^verbatim>\<open>unlimited\<close> or strings of digits, every value of the map is \<^verbatim>\<open>max\<close> or
  a string of digits. No value of a map built from a report or by the cgroup v1 reader is
  \<^verbatim>\<open>None\<close>; in a map of the cgroup v2 reader only \<^verbatim>\<open>weight\<close> can be \<^verbatim>\<open>None\<close> (when the
  weight file holds no digit).
\<close>

theorem canonical_values:
  "((\<forall>(k, v)\<in>set virsh_dict. v = ''unlimited'' \<or> isdigit v) \<longrightarrow>
      (\<exists>s' info. get_standardized_virsh_info h ''memtune'' virsh_dict s = (s', Inr (Some info))
         \<and> (\<forall>(k, x)\<in>set info. \<exists>t. x = Str t \<and> (t = ''max'' \<or> isdigit t))))
   \<and> (snd (get_standardized_virsh_info h virsh_cmd virsh_dict s) = Inr (Some info1)
        \<longrightarrow> map_of info1 k1 \<noteq> Some PyNone)
   \<and> (snd (get_standardized_cgroup1_info h virsh_cmd s) = Inr info2
        \<longrightarrow> map_of info2 k2 \<noteq> Some PyNone)
   \<and> (snd (get_standardized_cgroup2_info h virsh_cmd s) = Inr info3 \<and> k3 \<noteq> ''weight''
        \<longrightarrow> map_of info3 k3 \<noteq> Some PyNone)"
proof (intro conjI impI)
  assume "\<forall>(k, v)\<in>set virsh_dict. v = ''unlimited'' \<or> isdigit v"
  then show "\<exists>s' info. get_standardized_virsh_info h ''memtune'' virsh_dict s = (s', Inr (Some info))
         \<and> (\<forall>(k, x)\<in>set info. \<exists>t. x = Str t \<and> (t = ''max'' \<or> isdigit t))"
    by (rule memtune_report_values_normalized)
next
  assume "snd (get_standardized_virsh_info h virsh_cmd virsh_dict s) = Inr (Some info1)"
  then have "no_none info1" by (rule no_none_report)
  then show "map_of info1 k1 \<noteq> Some PyNone" by (simp add: no_none_def)
next
  assume "snd (get_standardized_cgroup1_info h virsh_cmd s) = Inr info2"
  then have "no_none info2" by (rule no_none_cgroup1)
  then show "map_of info2 k2 \<noteq> Some PyNone" by (simp add: no_none_def)
next
  assume a: "snd (get_standardized_cgroup2_info h virsh_cmd s) = Inr info3 \<and> k3 \<noteq> ''weight''"
  then have "no_none_but_weight info3" using nnw_cgroup2 by blast
  with a show "map_of info3 k3 \<noteq> Some PyNone" by (simp add: no_none_but_weight_def)
qed


theorem canonical_values_witness:
  "(\<exists>s' info. get_standardized_virsh_info host_v1 ''memtune''
        [(''hard_limit'', ''2097152''), (''soft_limit'', ''unlimited'')] state0 = (s', Inr (Some info))
         \<and> (\<forall>(k, x)\<in>set info. \<exists>t. x = Str t \<and> (t = ''max'' \<or> isdigit t)))
   \<and> map_of [(Some ''weight'', Str ''100''),
              (Some ''8:0'', Dict [(''rbps'', ''max''), (''wbps'', ''max''), (''riops'', ''500''), (''wiops'', ''max'')])]
        (Some ''weight'') \<noteq> Some PyNone
   \<and> map_of [(''cpu_shares'', Str ''1024''), (''vcpu_period'', Str ''100000''), (''vcpu_quota'', Str ''max''),
          (''emulator_period'', Str ''100000''), (''emulator_quota'', Str ''max''),
          (''global_period'', Str ''100000''), (''global_quota'', Str ''max'')] ''global_quota'' \<noteq> Some PyNone
   \<and> map_of [(''weight'', Str ''100''),
          (''8:0'', Dict [(''rbps'', ''max''), (''wbps'', ''max''), (''riops'', ''500''), (''wiops'', ''max'')])]
        ''8:0'' \<noteq> Some PyNone"
proof (intro conjI)
  have v: "\<forall>(k, v)\<in>set [(''hard_limit'', ''2097152''), (''soft_limit'', ''unlimited'')].
             v = ''unlimited'' \<or> isdigit v"
    by (simp add: isdigit_def is_digit_def)
  from canonical_values [where h = host_v1 and s = state0
      and virsh_dict = "[(''hard_limit'', ''2097152''), (''soft_limit'', ''unlimited'')]",
      THEN conjunct1, THEN mp, OF v]
  show "\<exists>s' info. get_standardized_virsh_info host_v1 ''memtune''
        [(''hard_limit'', ''2097152''), (''soft_limit'', ''unlimited'')] state0 = (s', Inr (Some info))
         \<and> (\<forall>(k, x)\<in>set info. \<exists>t. x = Str t \<and> (t = ''max'' \<or> isdigit t))" .
next
  from canonical_values [THEN conjunct2, THEN conjunct1, rule_format, OF host_v1_report_sda]
  show "map_of [(Some ''weight'', Str ''100''),
              (Some ''8:0'', Dict [(''rbps'', ''max''), (''wbps'', ''max''), (''riops'', ''500''), (''wiops'', ''max'')])]
        (Some ''weight'') \<noteq> Some PyNone" .
next
  from canonical_values [THEN conjunct2, THEN conjunct2, THEN conjunct1, rule_format, OF host_v1_schedinfo]
  show "map_of [(''cpu_shares'', Str ''1024''), (''vcpu_period'', Str ''100000''), (''vcpu_quota'', Str ''max''),
          (''emulator_period'', Str ''100000''), (''emulator_quota'', Str ''max''),
          (''global_period'', Str ''100000''), (''global_quota'', Str ''max'')] ''global_quota'' \<noteq> Some PyNone" .
next
  have k: "''8:0'' \<noteq> ''weight''" by simp
  from canonical_values [THEN conjunct2, THEN conjunct2, THEN conjunct2, rule_format,
      OF conjI, OF host_v2_blkiotune k]
  show "map_of [(''weight'', Str ''100''),
          (''8:0'', Dict [(''rbps'', ''max''), (''wbps'', ''max''), (''riops'', ''500''), (''wiops'', ''max'')])]
        ''8:0'' \<noteq> Some PyNone" .
qed

theorem canonical_values_counterexample:
  "snd (get_standardized_virsh_info host_v2 ''memtune''
          (convert_virsh_output_to_dict ''hard_limit: 1048576 KiB'') state0) =
     Inr (Some [(Some ''hard_limit'', Str ''1048576 KiB''), (Some ''soft_limit'', Str ''max''),
                (Some ''swap_hard_limit'', Str ''max'')])"
  by code_simp

end
